theory Spec2Isabelle
  imports Main "HOL-Library.Word"
begin

section \<open>XLA GPU backend: ir\_emission\_utils.cc\<close>

text \<open>
  A shallow embedding of \<^verbatim>\<open>tensorflow/compiler/xla/service/gpu/ir_emission_utils.cc\<close>:
  the library-dispatch classifiers over HLO instructions, the cuDNN call-target
  recognisers, the reduction validator, and the device code emitted for the
  cross-lane shuffle and the block-0/thread-0 predicate.
\<close>

subsection \<open>Shapes and HLO instructions\<close>

text \<open>
  The element types of \<^verbatim>\<open>xla_data.proto\<close>. The classifier names
  \<^verbatim>\<open>F16, F32, F64, C64, C128\<close>; the emitter names \<^verbatim>\<open>S32\<close>.
\<close>

datatype PrimitiveType =
    PRED
  | S8 | S16 | S32 | S64
  | U8 | U16 | U32 | U64
  | F16 | F32 | BF16 | F64
  | C64 | C128
  | TUPLE | OPAQUE | TOKEN

record Layout =
  minor_to_major :: "int list"

text \<open>An array shape: element type, extents (\<^verbatim>\<open>int64\<close>) and physical layout.\<close>

record Shape =
  element_type :: PrimitiveType
  dimensions :: "int list"
  layout :: Layout

definition rank :: "Shape \<Rightarrow> int" where
  "rank s = int (length (dimensions s))"

datatype HloOpcode =
    kAdd | kBroadcast | kConstant | kConvolution | kCustomCall | kDot | kFusion
  | kMultiply | kParameter | kReduce | kSubtract | kTranspose | kTuple

datatype FusionKind = kLoop | kInput | kOutput | kCustom

record DotDimensionNumbers =
  lhs_contracting_dimensions :: "int list"
  rhs_contracting_dimensions :: "int list"
  lhs_batch_dimensions :: "int list"
  rhs_batch_dimensions :: "int list"

definition lhs_batch_dimensions_size :: "DotDimensionNumbers \<Rightarrow> int" where
  "lhs_batch_dimensions_size d = int (length (lhs_batch_dimensions d))"

text \<open>
  An instruction carries its opcode, shape and operands, and the fields of the
  opcode-specific subclasses the classifiers read: fusion kind and fused root
  (fusion), call target (custom call), dimension numbers (dot), reduced dimensions
  (reduce; \<^verbatim>\<open>HloInstruction::dimensions()\<close>). A node that is not a fusion has no
  fused root.
\<close>

datatype HloInstruction = HloInstruction
  (opcode: HloOpcode)
  (shape: Shape)
  (operands: "HloInstruction list")
  (fusion_kind: FusionKind)
  (fused_expression_root: "HloInstruction option")
  (custom_call_target: string)
  (dot_dimension_numbers: DotDimensionNumbers)
  (hlo_dimensions: "int list")

text \<open>
  What stops the classifier instead of returning: a \<^verbatim>\<open>CHECK\<close> that fires (a fatal
  abort of the process), and an index outside a container, which the source does
  not guard (undefined behaviour in C++; the model makes it a fault so that no
  theorem can rest on an unspecified element).
\<close>

datatype fault = CheckFailed | OutOfBounds

definition operand :: "HloInstruction \<Rightarrow> nat \<Rightarrow> fault + HloInstruction" where
  "operand hlo i =
     (if i < length (operands hlo) then Inr (operands hlo ! i) else Inl OutOfBounds)"

text \<open>Indexed read of a repeated field or of the extents, index of type \<^verbatim>\<open>int64\<close>.\<close>

definition Get :: "'a list \<Rightarrow> int \<Rightarrow> fault + 'a" where
  "Get xs i = (if 0 \<le> i \<and> i < int (length xs) then Inr (xs ! nat i) else Inl OutOfBounds)"

subsection \<open>GEMM eligibility (lines 41--108)\<close>

definition IsRank2 :: "Shape \<Rightarrow> int \<Rightarrow> bool" where
  "IsRank2 s batch_dimensions_size \<longleftrightarrow> rank s = batch_dimensions_size + 2"

text \<open>
  Modelled from the spec: \<^verbatim>\<open>ShapeUtil::IsZeroElementArray\<close> is declared in
  \<^verbatim>\<open>shape_util.h\<close>, which is not among the sources. The specification words it as
  the shape having a zero-extent dimension.
\<close>

definition IsZeroElementArray :: "Shape \<Rightarrow> bool" where
  "IsZeroElementArray s \<longleftrightarrow> 0 \<in> set (dimensions s)"

definition AreValidGemmShapes :: "Shape \<Rightarrow> Shape \<Rightarrow> Shape \<Rightarrow> int \<Rightarrow> bool" where
  "AreValidGemmShapes lhs_shape rhs_shape output_shape batch_dimensions_size =
     (let output_primitive_type = element_type output_shape;
          type_is_allowed =
            (output_primitive_type = F16 \<or> output_primitive_type = F32 \<or>
             output_primitive_type = F64 \<or> output_primitive_type = C64 \<or>
             output_primitive_type = C128)
      in type_is_allowed \<and> IsRank2 lhs_shape batch_dimensions_size \<and>
         IsRank2 rhs_shape batch_dimensions_size \<and>
         IsRank2 output_shape batch_dimensions_size \<and>
         \<not> IsZeroElementArray lhs_shape \<and>
         \<not> IsZeroElementArray rhs_shape)"

text \<open>
  The extent a dot contracts over on one side:
  \<^verbatim>\<open>shape.dimensions(contracting_dimensions(0))\<close>.
\<close>

definition contracting_extent :: "Shape \<Rightarrow> int list \<Rightarrow> fault + int" where
  "contracting_extent s contracting =
     (case Get contracting 0 of
        Inl e \<Rightarrow> Inl e
      | Inr d \<Rightarrow> Get (dimensions s) d)"

definition DotImplementedAsGemm :: "HloInstruction \<Rightarrow> fault + bool" where
  "DotImplementedAsGemm dot =
     (if opcode dot \<noteq> kDot then Inl CheckFailed
      else case operand dot 0 of
        Inl e \<Rightarrow> Inl e
      | Inr op0 \<Rightarrow>
         (case operand dot 1 of
            Inl e \<Rightarrow> Inl e
          | Inr op1 \<Rightarrow>
             (let lhs_shape = shape op0;
                  rhs_shape = shape op1;
                  dim_numbers = dot_dimension_numbers dot
              in if AreValidGemmShapes lhs_shape rhs_shape (shape dot)
                      (lhs_batch_dimensions_size dim_numbers)
                 then (case contracting_extent lhs_shape
                              (lhs_contracting_dimensions dim_numbers) of
                         Inl e \<Rightarrow> Inl e
                       | Inr l \<Rightarrow>
                          (case contracting_extent rhs_shape
                                  (rhs_contracting_dimensions dim_numbers) of
                             Inl e \<Rightarrow> Inl e
                           | Inr r \<Rightarrow> if l = r then Inr True else Inl CheckFailed))
                 else Inr False)))"

text \<open>
  The search inside an output fusion: operand 0 of the fused root, and operand 1
  only when operand 0 is not a dot.
\<close>

definition find_fused_dot :: "HloInstruction \<Rightarrow> fault + HloInstruction" where
  "find_fused_dot root =
     (case operand root 0 of
        Inl e \<Rightarrow> Inl e
      | Inr dot \<Rightarrow> if opcode dot \<noteq> kDot then operand root 1 else Inr dot)"

definition ImplementedAsGemm :: "HloInstruction \<Rightarrow> fault + bool" where
  "ImplementedAsGemm hlo =
     (if opcode hlo = kDot then DotImplementedAsGemm hlo
      else if opcode hlo = kFusion \<and> fusion_kind hlo = kOutput then
        (case fused_expression_root hlo of
           None \<Rightarrow> Inl CheckFailed
         | Some root \<Rightarrow>
            if opcode root = kMultiply \<or> opcode root = kAdd then
              (case find_fused_dot root of
                 Inl e \<Rightarrow> Inl e
               | Inr dot \<Rightarrow> if opcode dot = kDot then DotImplementedAsGemm dot else Inr False)
            else Inr False)
      else Inr False)"

subsection \<open>cuDNN custom calls (lines 110--144, 278--294)\<close>

definition kCudnnBatchNormForwardInferenceCallTarget :: string where
  "kCudnnBatchNormForwardInferenceCallTarget = ''__cudnn$batchNormalizationForwardInference''"

definition kCudnnBatchNormForwardTrainingCallTarget :: string where
  "kCudnnBatchNormForwardTrainingCallTarget = ''__cudnn$batchNormalizationForwardTraining''"

definition kCudnnBatchNormBackwardCallTarget :: string where
  "kCudnnBatchNormBackwardCallTarget = ''__cudnn$batchNormalizationBackward''"

definition IsCustomCallToDnnBatchNorm :: "HloInstruction \<Rightarrow> bool" where
  "IsCustomCallToDnnBatchNorm hlo =
     (if opcode hlo \<noteq> kCustomCall then False
      else let target = custom_call_target hlo
           in target = kCudnnBatchNormForwardInferenceCallTarget \<or>
              target = kCudnnBatchNormForwardTrainingCallTarget \<or>
              target = kCudnnBatchNormBackwardCallTarget)"

definition kCudnnConvForwardCallTarget :: string where
  "kCudnnConvForwardCallTarget = ''__cudnn$convForward''"

definition kCudnnConvBackwardInputCallTarget :: string where
  "kCudnnConvBackwardInputCallTarget = ''__cudnn$convBackwardInput''"

definition kCudnnConvBackwardFilterCallTarget :: string where
  "kCudnnConvBackwardFilterCallTarget = ''__cudnn$convBackwardFilter''"

definition kCudnnConvBiasActivationForwardCallTarget :: string where
  "kCudnnConvBiasActivationForwardCallTarget = ''__cudnn$convBiasActivationForward''"

definition IsCustomCallToDnnConvolution :: "HloInstruction \<Rightarrow> bool" where
  "IsCustomCallToDnnConvolution hlo =
     (if opcode hlo \<noteq> kCustomCall then False
      else let target = custom_call_target hlo
           in target = kCudnnConvForwardCallTarget \<or>
              target = kCudnnConvBackwardInputCallTarget \<or>
              target = kCudnnConvBackwardFilterCallTarget \<or>
              target = kCudnnConvBiasActivationForwardCallTarget)"

datatype CudnnConvKind = kForward | kBackwardInput | kBackwardFilter | kForwardActivation

text \<open>
  \<^verbatim>\<open>StatusOr<CudnnConvKind>\<close>: a kind, or the status built by
  \<^verbatim>\<open>InternalError("Unexpected call target: %s", target)\<close>, whose message is the
  format's text followed by the target.
\<close>

datatype Status = InternalError string

definition GetCudnnConvKind :: "HloInstruction \<Rightarrow> Status + CudnnConvKind" where
  "GetCudnnConvKind instr =
     (let target = custom_call_target instr
      in if target = kCudnnConvForwardCallTarget then Inr kForward
         else if target = kCudnnConvBackwardInputCallTarget then Inr kBackwardInput
         else if target = kCudnnConvBackwardFilterCallTarget then Inr kBackwardFilter
         else if target = kCudnnConvBiasActivationForwardCallTarget then Inr kForwardActivation
         else Inl (InternalError (''Unexpected call target: '' @ target)))"

subsection \<open>Reduction to vector (lines 151--169)\<close>

text \<open>\<^verbatim>\<open>absl::c_linear_search\<close> and \<^verbatim>\<open>absl::c_count\<close> over a container.\<close>

definition c_linear_search :: "'a list \<Rightarrow> 'a \<Rightarrow> bool" where
  "c_linear_search c v \<longleftrightarrow> v \<in> set c"

definition c_count :: "'a list \<Rightarrow> 'a \<Rightarrow> int" where
  "c_count c v = int (count_list c v)"

text \<open>
  The position of a value in a container: the distance from the start to its
  first occurrence (the container's size when it does not occur). A list of
  positions is adjacent when each differs by one from the next.
\<close>

fun PositionInContainer :: "int list \<Rightarrow> int \<Rightarrow> int" where
  "PositionInContainer [] v = 0"
| "PositionInContainer (x # xs) v = (if x = v then 0 else 1 + PositionInContainer xs v)"

fun adjacent_by_one :: "int list \<Rightarrow> bool" where
  "adjacent_by_one (a # b # rest) = (if 1 \<noteq> b - a then False else adjacent_by_one (b # rest))"
| "adjacent_by_one rest = True"

text \<open>
  Modelled from the spec: \<^verbatim>\<open>LayoutUtil::AreDimensionsConsecutive\<close> (layout\_util.h
  is not among the sources) holds when the given dimensions form a physically
  contiguous run under the minor-to-major order: their positions in that order,
  sorted, differ by one from each to the next.
\<close>

definition AreDimensionsConsecutive :: "Layout \<Rightarrow> int list \<Rightarrow> bool" where
  "AreDimensionsConsecutive l dims =
     (let positions_in_layout = map (PositionInContainer (minor_to_major l)) dims
      in adjacent_by_one (sort positions_in_layout))"

text \<open>
  Modelled from the spec: \<^verbatim>\<open>ShapeUtil::FilterDimensions\<close> (shape\_util.h is not
  among the sources) is the shape with the dimensions that fail the predicate
  filtered out, the others in the same relative order; the layout loses the
  deleted dimensions and renumbers the remaining ones. The predicate is asked
  about the indices below the rank only.
\<close>

definition FilterDimensions :: "(int \<Rightarrow> bool) \<Rightarrow> Shape \<Rightarrow> Shape" where
  "FilterDimensions p s =
     (let n = length (dimensions s);
          dims_to_delete = filter (\<lambda>i. \<not> p i) (map int [0..<n])
      in \<lparr>element_type = element_type s,
          dimensions = map (\<lambda>i. dimensions s ! i) (filter (\<lambda>i. p (int i)) [0..<n]),
          layout = \<lparr>minor_to_major =
            map (\<lambda>m. m - int (length (filter (\<lambda>d. d < m) dims_to_delete)))
              (filter (\<lambda>m. m \<notin> set dims_to_delete) (minor_to_major (layout s)))\<rparr>\<rparr>)"

text \<open>
  Modelled from the spec: \<^verbatim>\<open>ShapeUtil::Equal\<close> (shape\_util.h is not among the
  sources) compares two shapes field by field: element type, extents
  dimension for dimension, and layout.
\<close>

definition ShapeUtil_Equal :: "Shape \<Rightarrow> Shape \<Rightarrow> bool" where
  "ShapeUtil_Equal lhs rhs \<longleftrightarrow>
     element_type lhs = element_type rhs \<and> dimensions lhs = dimensions rhs \<and>
     minor_to_major (layout lhs) = minor_to_major (layout rhs)"

text \<open>
  The loop of lines 157--161: \<^verbatim>\<open>dim\<close> runs from 0 up to the input's rank and is
  appended to \<^verbatim>\<open>dims_to_keep\<close> unless the reduce lists it.
\<close>

function dims_to_keep_loop :: "int list \<Rightarrow> int \<Rightarrow> int \<Rightarrow> int list \<Rightarrow> int list" where
  "dims_to_keep_loop reduce_dims n dim dims_to_keep =
     (if dim < n
      then dims_to_keep_loop reduce_dims n (dim + 1)
             (if \<not> c_linear_search reduce_dims dim then dims_to_keep @ [dim] else dims_to_keep)
      else dims_to_keep)"
  by pat_completeness auto
termination
  by (relation "measure (\<lambda>(reduce_dims, n, dim, dims_to_keep). nat (n - dim))") auto

declare dims_to_keep_loop.simps [simp del]

definition IsReductionToVector :: "HloInstruction \<Rightarrow> fault + bool" where
  "IsReductionToVector reduce =
     (if kReduce \<noteq> opcode reduce then Inr False
      else case operand reduce 0 of
        Inl e \<Rightarrow> Inl e
      | Inr input \<Rightarrow>
         (let dims_to_keep =
                dims_to_keep_loop (hlo_dimensions reduce)
                  (int (length (dimensions (shape input)))) 0 []
          in Inr (AreDimensionsConsecutive (layout (shape input)) dims_to_keep \<and>
                  ShapeUtil_Equal (shape reduce)
                    (FilterDimensions (\<lambda>dim. c_count dims_to_keep dim \<noteq> 0) (shape input)))))"

text \<open>
  The kept dimensions as the specification words them: the ascending complement of
  the reduced dimensions against the input's rank.
\<close>

definition kept_dimensions :: "HloInstruction \<Rightarrow> Shape \<Rightarrow> int list" where
  "kept_dimensions reduce input_shape =
     filter (\<lambda>d. d \<notin> set (hlo_dimensions reduce)) (map int [0..<length (dimensions input_shape)])"

subsection \<open>Device values and the instruction builder\<close>

text \<open>
  The emitters build LLVM IR that every lane of the launch executes. An
  \<^verbatim>\<open>llvm::Value*\<close> is modelled by its type and by what it holds at run time on each
  lane; a lane is identified by its thread index and its block index (both
  \<^verbatim>\<open>i32\<close>). A scalar holds a bit pattern, read as an unsigned number; a vector
  holds its elements, element 0 in the least significant bits (the target is
  little-endian); \<^verbatim>\<open>Poison\<close> is what ill-typed or out-of-range IR yields.
\<close>

unbundle bit_operations_syntax

type_synonym lane = "32 word \<times> 32 word"

datatype llvm_type =
    IntegerTy nat | HalfTy | FloatTy | DoubleTy
  | VectorTy llvm_type nat | StructTy "llvm_type list" | PointerTy

fun getPrimitiveSizeInBits :: "llvm_type \<Rightarrow> nat" where
  "getPrimitiveSizeInBits (IntegerTy n) = n"
| "getPrimitiveSizeInBits HalfTy = 16"
| "getPrimitiveSizeInBits FloatTy = 32"
| "getPrimitiveSizeInBits DoubleTy = 64"
| "getPrimitiveSizeInBits (VectorTy t n) = n * getPrimitiveSizeInBits t"
| "getPrimitiveSizeInBits (StructTy ts) = 0"
| "getPrimitiveSizeInBits PointerTy = 0"

definition isFloatTy :: "llvm_type \<Rightarrow> bool" where
  "isFloatTy t \<longleftrightarrow> t = FloatTy"

datatype payload = Bits nat | Elems "nat list" | Poison

record Value =
  getType :: llvm_type
  at_lane :: "lane \<Rightarrow> payload"

text \<open>
  Modelled from the spec: \<^verbatim>\<open>llvm_ir::PrimitiveTypeToIrType\<close> (llvm\_util.h is not among
  the sources) is the builder's primitive-type-to-target-type conversion. The
  emitters use it at \<^verbatim>\<open>S32\<close> only.
\<close>

fun PrimitiveTypeToIrType :: "PrimitiveType \<Rightarrow> llvm_type" where
  "PrimitiveTypeToIrType PRED = IntegerTy 8"
| "PrimitiveTypeToIrType S8 = IntegerTy 8"
| "PrimitiveTypeToIrType U8 = IntegerTy 8"
| "PrimitiveTypeToIrType S16 = IntegerTy 16"
| "PrimitiveTypeToIrType U16 = IntegerTy 16"
| "PrimitiveTypeToIrType BF16 = IntegerTy 16"
| "PrimitiveTypeToIrType F16 = HalfTy"
| "PrimitiveTypeToIrType S32 = IntegerTy 32"
| "PrimitiveTypeToIrType U32 = IntegerTy 32"
| "PrimitiveTypeToIrType S64 = IntegerTy 64"
| "PrimitiveTypeToIrType U64 = IntegerTy 64"
| "PrimitiveTypeToIrType F32 = FloatTy"
| "PrimitiveTypeToIrType F64 = DoubleTy"
| "PrimitiveTypeToIrType C64 = StructTy [FloatTy, FloatTy]"
| "PrimitiveTypeToIrType C128 = StructTy [DoubleTy, DoubleTy]"
| "PrimitiveTypeToIrType TUPLE = PointerTy"
| "PrimitiveTypeToIrType OPAQUE = PointerTy"
| "PrimitiveTypeToIrType TOKEN = PointerTy"

text \<open>
  A pattern as \<open>k\<close> segments of \<open>w\<close> bits, least significant first, and back.
\<close>

fun split_bits :: "nat \<Rightarrow> nat \<Rightarrow> nat \<Rightarrow> nat list" where
  "split_bits w 0 n = []"
| "split_bits w (Suc k) n = n mod 2 ^ w # split_bits w k (n div 2 ^ w)"

fun join_bits :: "nat \<Rightarrow> nat list \<Rightarrow> nat" where
  "join_bits w [] = 0"
| "join_bits w (x # xs) = x + 2 ^ w * join_bits w xs"

text \<open>
  \<^verbatim>\<open>IRBuilder::CreateBitCast\<close> keeps the bits and changes the type: a vector is
  read as the concatenation of its elements, and a pattern cast to a vector type
  is cut into that type's elements.
\<close>

definition to_pattern :: "llvm_type \<Rightarrow> payload \<Rightarrow> nat option" where
  "to_pattern ty p =
     (case p of
        Bits n \<Rightarrow> Some n
      | Elems xs \<Rightarrow>
         (case ty of
            VectorTy et k \<Rightarrow> Some (join_bits (getPrimitiveSizeInBits et) xs)
          | _ \<Rightarrow> None)
      | Poison \<Rightarrow> None)"

definition of_pattern :: "llvm_type \<Rightarrow> nat \<Rightarrow> payload" where
  "of_pattern ty n =
     (case ty of
        VectorTy et k \<Rightarrow> Elems (split_bits (getPrimitiveSizeInBits et) k n)
      | _ \<Rightarrow> Bits n)"

definition getIntNTy :: "nat \<Rightarrow> llvm_type" where
  "getIntNTy n = IntegerTy n"

definition getInt32Ty :: llvm_type where
  "getInt32Ty = IntegerTy 32"

definition getInt32 :: "32 word \<Rightarrow> Value" where
  "getInt32 c = \<lparr>getType = IntegerTy 32, at_lane = \<lambda>l. Bits (unat c)\<rparr>"

definition CreateBitCast :: "Value \<Rightarrow> llvm_type \<Rightarrow> Value" where
  "CreateBitCast v dest_ty =
     \<lparr>getType = dest_ty,
      at_lane = \<lambda>l. case to_pattern (getType v) (at_lane v l) of
                       None \<Rightarrow> Poison
                     | Some n \<Rightarrow> of_pattern dest_ty n\<rparr>"

text \<open>
  Zero extension leaves the unsigned number as it is; truncation keeps the low
  bits of the destination width.
\<close>

definition CreateZExt :: "Value \<Rightarrow> llvm_type \<Rightarrow> Value" where
  "CreateZExt v dest_ty =
     \<lparr>getType = dest_ty,
      at_lane = \<lambda>l. case at_lane v l of Bits n \<Rightarrow> Bits n | _ \<Rightarrow> Poison\<rparr>"

definition CreateTrunc :: "Value \<Rightarrow> llvm_type \<Rightarrow> Value" where
  "CreateTrunc v dest_ty =
     \<lparr>getType = dest_ty,
      at_lane = \<lambda>l. case at_lane v l of
                       Bits n \<Rightarrow> Bits (n mod 2 ^ getPrimitiveSizeInBits dest_ty)
                     | _ \<Rightarrow> Poison\<rparr>"

text \<open>Element reads and writes at a constant index; an index outside the vector is poison.\<close>

definition getElementType :: "llvm_type \<Rightarrow> llvm_type" where
  "getElementType ty = (case ty of VectorTy et k \<Rightarrow> et | _ \<Rightarrow> ty)"

definition CreateExtractElement :: "Value \<Rightarrow> nat \<Rightarrow> Value" where
  "CreateExtractElement vec idx =
     \<lparr>getType = getElementType (getType vec),
      at_lane = \<lambda>l. case at_lane vec l of
                       Elems xs \<Rightarrow> if idx < length xs then Bits (xs ! idx) else Poison
                     | _ \<Rightarrow> Poison\<rparr>"

definition CreateInsertElement :: "Value \<Rightarrow> Value \<Rightarrow> nat \<Rightarrow> Value" where
  "CreateInsertElement vec new_elt idx =
     \<lparr>getType = getType vec,
      at_lane = \<lambda>l. case at_lane vec l of
                       Elems xs \<Rightarrow>
                        (case at_lane new_elt l of
                           Bits e \<Rightarrow> if idx < length xs then Elems (xs[idx := e]) else Poison
                         | _ \<Rightarrow> Poison)
                     | _ \<Rightarrow> Poison\<rparr>"

definition CreateICmpEQ :: "Value \<Rightarrow> Value \<Rightarrow> Value" where
  "CreateICmpEQ lhs rhs =
     \<lparr>getType = IntegerTy 1,
      at_lane = \<lambda>l. case at_lane lhs l of
                       Bits a \<Rightarrow>
                        (case at_lane rhs l of
                           Bits b \<Rightarrow> Bits (if a = b then 1 else 0)
                         | _ \<Rightarrow> Poison)
                     | _ \<Rightarrow> Poison\<rparr>"

definition CreateAnd :: "Value \<Rightarrow> Value \<Rightarrow> Value" where
  "CreateAnd lhs rhs =
     \<lparr>getType = getType lhs,
      at_lane = \<lambda>l. case at_lane lhs l of
                       Bits a \<Rightarrow>
                        (case at_lane rhs l of
                           Bits b \<Rightarrow> Bits (a AND b)
                         | _ \<Rightarrow> Poison)
                     | _ \<Rightarrow> Poison\<rparr>"

subsection \<open>Block 0, thread 0 (lines 309--319)\<close>

datatype TargetIntrinsicID = kTHREAD_ID_X | kBLOCK_ID_X

text \<open>
  Modelled from the spec: \<^verbatim>\<open>llvm_ir::EmitCallToTargetIntrinsic\<close> (not among the
  sources) with \<^verbatim>\<open>kTHREAD_ID_X\<close> and \<^verbatim>\<open>kBLOCK_ID_X\<close> reads the lane's thread index
  and block index.
\<close>

fun EmitCallToTargetIntrinsic :: "TargetIntrinsicID \<Rightarrow> Value" where
  "EmitCallToTargetIntrinsic kTHREAD_ID_X =
     \<lparr>getType = IntegerTy 32, at_lane = \<lambda>(thread_id_x, block_id_x). Bits (unat thread_id_x)\<rparr>"
| "EmitCallToTargetIntrinsic kBLOCK_ID_X =
     \<lparr>getType = IntegerTy 32, at_lane = \<lambda>(thread_id_x, block_id_x). Bits (unat block_id_x)\<rparr>"

definition IsBlock0Thread0 :: Value where
  "IsBlock0Thread0 =
     CreateAnd
       (CreateICmpEQ (getInt32 0) (EmitCallToTargetIntrinsic kTHREAD_ID_X))
       (CreateICmpEQ (getInt32 0) (EmitCallToTargetIntrinsic kBLOCK_ID_X))"

text \<open>
  The lanes of a launch: thread indices below the block size, block indices below
  the block count.
\<close>

definition in_launch_grid :: "32 word \<Rightarrow> 32 word \<Rightarrow> lane \<Rightarrow> bool" where
  "in_launch_grid threads_per_block blocks l \<longleftrightarrow> fst l < threads_per_block \<and> snd l < blocks"

subsection \<open>Device function calls (lines 171--198)\<close>

text \<open>
  What the emitter leaves behind in the module: the functions declared
  (\<^verbatim>\<open>getOrInsertFunction\<close> declares the callee only if it is not declared already)
  and the calls emitted, in order. The meaning of a call is given by the device
  library, a parameter: the callee's name and the arguments' run-time values give
  the result on each lane. The input types fix the declared signature and the
  attributes decorate the declaration; neither changes the value (the attribute
  list is empty at both call sites and is left out).
\<close>

type_synonym device_lib = "string \<Rightarrow> (lane \<Rightarrow> payload) list \<Rightarrow> lane \<Rightarrow> payload"

record emitter_state =
  module_functions :: "string list"
  emitted_calls :: "string list"

definition getOrInsertFunction :: "string \<Rightarrow> string list \<Rightarrow> string list" where
  "getOrInsertFunction name fs = (if name \<in> set fs then fs else fs @ [name])"

definition emit_call :: "string \<Rightarrow> emitter_state \<Rightarrow> emitter_state" where
  "emit_call callee_name st =
     st\<lparr>module_functions := getOrInsertFunction callee_name (module_functions st),
        emitted_calls := emitted_calls st @ [callee_name]\<rparr>"

definition EmitDeviceFunctionCall ::
  "device_lib \<Rightarrow> string \<Rightarrow> Value list \<Rightarrow> PrimitiveType list \<Rightarrow> PrimitiveType \<Rightarrow>
   emitter_state \<Rightarrow> Value \<times> emitter_state" where
  "EmitDeviceFunctionCall lib callee_name args input_types output_type st =
     (\<lparr>getType = PrimitiveTypeToIrType output_type,
       at_lane = lib callee_name (map at_lane args)\<rparr>,
      emit_call callee_name st)"

subsection \<open>Full-warp shuffle down (lines 229--276)\<close>

text \<open>A run-time value read as an \<^verbatim>\<open>i32\<close> argument.\<close>

definition as_i32 :: "payload \<Rightarrow> 32 word option" where
  "as_i32 p = (case p of Bits n \<Rightarrow> Some (word_of_nat n) | _ \<Rightarrow> None)"

text \<open>
  Modelled from the spec: \<^verbatim>\<open>__ockl_readuplane_i32\<close> is the hardware cross-lane
  read of the device library, not part of the sources. Each lane receives the
  32-bit value that the lane selected for it holds. Which lane that is (the lane
  \<open>K\<close> positions ahead; unspecified outside the group) is the parameter \<open>src\<close>, from
  the reading lane and its offset.
\<close>

definition ockl_readuplane_i32 ::
  "(lane \<Rightarrow> 32 word \<Rightarrow> lane) \<Rightarrow> (lane \<Rightarrow> payload) \<Rightarrow> (lane \<Rightarrow> payload) \<Rightarrow> lane \<Rightarrow> payload" where
  "ockl_readuplane_i32 src var offset l =
     (case as_i32 (offset l) of
        None \<Rightarrow> Poison
      | Some k \<Rightarrow>
         (case as_i32 (var (src l k)) of
            None \<Rightarrow> Poison
          | Some v \<Rightarrow> Bits (unat v)))"

text \<open>The device library: the cross-lane read under its name, with two arguments.\<close>

definition device_library :: "(lane \<Rightarrow> 32 word \<Rightarrow> lane) \<Rightarrow> device_lib" where
  "device_library src name args =
     (if name = ''__ockl_readuplane_i32''
      then (case args of [var, offset] \<Rightarrow> ockl_readuplane_i32 src var offset | _ \<Rightarrow> (\<lambda>l. Poison))
      else (\<lambda>l. Poison))"

text \<open>
  Modelled from the spec: \<^verbatim>\<open>CeilOfRatio\<close> (math\_util.h is not among the sources) is
  the ceiling of the quotient, here of a bit width by 32.
\<close>

definition CeilOfRatio :: "nat \<Rightarrow> nat \<Rightarrow> nat" where
  "CeilOfRatio numerator denominator = (numerator + denominator - 1) div denominator"

text \<open>
  The loop of lines 262--270: segment \<open>i\<close> is extracted, exchanged and inserted
  back, for \<open>i\<close> from 0 up to the number of segments.
\<close>

function shuffle_segments ::
  "device_lib \<Rightarrow> Value \<Rightarrow> nat \<Rightarrow> nat \<Rightarrow> Value \<Rightarrow> emitter_state \<Rightarrow> Value \<times> emitter_state" where
  "shuffle_segments lib offset num_segments i x st =
     (if i < num_segments
      then let (r, st') = EmitDeviceFunctionCall lib ''__ockl_readuplane_i32''
                            [CreateExtractElement x i, offset] [S32, S32] S32 st
           in shuffle_segments lib offset num_segments (i + 1) (CreateInsertElement x r i) st'
      else (x, st))"
  by pat_completeness auto
termination
  by (relation "measure (\<lambda>(lib, offset, num_segments, i, x, st). num_segments - i)") auto

declare shuffle_segments.simps [simp del]

text \<open>
  The body of the special case (lines 243--250), the general path (lines 256--275)
  and the function itself, which takes the special case for a value of type
  \<^verbatim>\<open>float\<close> (line 242). \<^verbatim>\<open>all_warps_mask\<close> (line 239) is computed and never used.
\<close>

definition EmitFullWarpShuffleDown_fast ::
  "device_lib \<Rightarrow> Value \<Rightarrow> Value \<Rightarrow> emitter_state \<Rightarrow> Value \<times> emitter_state" where
  "EmitFullWarpShuffleDown_fast lib v offset st =
     (let bit_width = getPrimitiveSizeInBits (getType v);
          value_as_int = CreateBitCast v (getIntNTy bit_width);
          (result, st') = EmitDeviceFunctionCall lib ''__ockl_readuplane_i32''
                            [value_as_int, offset] [S32, S32] S32 st;
          result_as_float = CreateBitCast result (getType v)
      in (result_as_float, st'))"

definition EmitFullWarpShuffleDown_general ::
  "device_lib \<Rightarrow> Value \<Rightarrow> Value \<Rightarrow> emitter_state \<Rightarrow> Value \<times> emitter_state" where
  "EmitFullWarpShuffleDown_general lib v offset st =
     (let bit_width = getPrimitiveSizeInBits (getType v);
          num_segments = CeilOfRatio bit_width 32;
          x = CreateBitCast
                (CreateZExt (CreateBitCast v (getIntNTy bit_width))
                   (getIntNTy (32 * num_segments)))
                (VectorTy getInt32Ty num_segments);
          (x', st') = shuffle_segments lib offset num_segments 0 x st
      in (CreateBitCast
            (CreateTrunc (CreateBitCast x' (getIntNTy (32 * num_segments)))
               (getIntNTy bit_width))
            (getType v),
          st'))"

definition EmitFullWarpShuffleDown ::
  "device_lib \<Rightarrow> Value \<Rightarrow> Value \<Rightarrow> emitter_state \<Rightarrow> Value \<times> emitter_state" where
  "EmitFullWarpShuffleDown lib v offset st =
     (let bit_width = getPrimitiveSizeInBits (getType v)
      in if isFloatTy (getType v) \<and> bit_width = 32
         then EmitFullWarpShuffleDown_fast lib v offset st
         else EmitFullWarpShuffleDown_general lib v offset st)"

text \<open>
  The exchange as the specification words it: the value is an opaque bit pattern,
  and each lane receives the whole pattern of the lane selected for it.
\<close>

definition whole_pattern_exchange ::
  "(lane \<Rightarrow> 32 word \<Rightarrow> lane) \<Rightarrow> Value \<Rightarrow> Value \<Rightarrow> Value" where
  "whole_pattern_exchange src v offset =
     \<lparr>getType = getType v,
      at_lane = \<lambda>l. case as_i32 (at_lane offset l) of
                       None \<Rightarrow> Poison
                     | Some k \<Rightarrow> at_lane v (src l k)\<rparr>"

text \<open>The integer and floating-point types.\<close>

fun is_scalar_type :: "llvm_type \<Rightarrow> bool" where
  "is_scalar_type (IntegerTy n) = True"
| "is_scalar_type HalfTy = True"
| "is_scalar_type FloatTy = True"
| "is_scalar_type DoubleTy = True"
| "is_scalar_type t = False"

text \<open>
  A well-formed scalar value: an integer or floating-point type, and on every lane
  a bit pattern of the type's width.
\<close>

definition holds_bit_pattern :: "Value \<Rightarrow> bool" where
  "holds_bit_pattern v \<longleftrightarrow>
     is_scalar_type (getType v) \<and>
     (\<forall>l. \<exists>n < 2 ^ getPrimitiveSizeInBits (getType v). at_lane v l = Bits n)"

subsection \<open>Example nodes\<close>

text \<open>
  Constructors in the style of \<^verbatim>\<open>ShapeUtil::MakeShape\<close> (dense, major-to-minor
  layout) and \<^verbatim>\<open>HloInstruction::Create...\<close>, and the nodes the concrete
  instances below are stated on.
\<close>

definition MakeShape :: "PrimitiveType \<Rightarrow> int list \<Rightarrow> Shape" where
  "MakeShape ty dims =
     \<lparr>element_type = ty, dimensions = dims,
      layout = \<lparr>minor_to_major = rev (map int [0..<length dims])\<rparr>\<rparr>"

definition no_dot_dimension_numbers :: DotDimensionNumbers where
  "no_dot_dimension_numbers =
     \<lparr>lhs_contracting_dimensions = [], rhs_contracting_dimensions = [],
      lhs_batch_dimensions = [], rhs_batch_dimensions = []\<rparr>"

definition CreateParameter :: "Shape \<Rightarrow> HloInstruction" where
  "CreateParameter s = HloInstruction kParameter s [] kLoop None [] no_dot_dimension_numbers []"

definition CreateDot :: "Shape \<Rightarrow> HloInstruction \<Rightarrow> HloInstruction \<Rightarrow> HloInstruction" where
  "CreateDot s lhs rhs =
     HloInstruction kDot s [lhs, rhs] kLoop None []
       \<lparr>lhs_contracting_dimensions = [1], rhs_contracting_dimensions = [0],
        lhs_batch_dimensions = [], rhs_batch_dimensions = []\<rparr> []"

definition CreateBinary :: "Shape \<Rightarrow> HloOpcode \<Rightarrow> HloInstruction \<Rightarrow> HloInstruction \<Rightarrow> HloInstruction" where
  "CreateBinary s opc lhs rhs =
     HloInstruction opc s [lhs, rhs] kLoop None [] no_dot_dimension_numbers []"

definition CreateFusion :: "Shape \<Rightarrow> FusionKind \<Rightarrow> HloInstruction \<Rightarrow> HloInstruction" where
  "CreateFusion s kind root =
     HloInstruction kFusion s [] kind (Some root) [] no_dot_dimension_numbers []"

definition CreateCustomCall :: "Shape \<Rightarrow> string \<Rightarrow> HloInstruction" where
  "CreateCustomCall s target =
     HloInstruction kCustomCall s [] kLoop None target no_dot_dimension_numbers []"

definition dot_2x3_3x4 :: HloInstruction where
  "dot_2x3_3x4 = CreateDot (MakeShape F32 [2, 4])
     (CreateParameter (MakeShape F32 [2, 3])) (CreateParameter (MakeShape F32 [3, 4]))"

definition dot_2x0_0x4 :: HloInstruction where
  "dot_2x0_0x4 = CreateDot (MakeShape F32 [2, 4])
     (CreateParameter (MakeShape F32 [2, 0])) (CreateParameter (MakeShape F32 [0, 4]))"

definition dot_2x5_5x4 :: HloInstruction where
  "dot_2x5_5x4 = CreateDot (MakeShape F32 [2, 4])
     (CreateParameter (MakeShape F32 [2, 5])) (CreateParameter (MakeShape F32 [5, 4]))"

definition dot_2x3_5x4 :: HloInstruction where
  "dot_2x3_5x4 = CreateDot (MakeShape F32 [2, 4])
     (CreateParameter (MakeShape F32 [2, 3])) (CreateParameter (MakeShape F32 [5, 4]))"

definition CreateReduce :: "Shape \<Rightarrow> HloInstruction \<Rightarrow> HloInstruction \<Rightarrow> int list \<Rightarrow> HloInstruction" where
  "CreateReduce s arg init_value dimensions_to_reduce =
     HloInstruction kReduce s [arg, init_value] kLoop None [] no_dot_dimension_numbers
       dimensions_to_reduce"

definition reduce_234_dim1 :: HloInstruction where
  "reduce_234_dim1 = CreateReduce (MakeShape F32 [2, 4])
     (CreateParameter (MakeShape F32 [2, 3, 4])) (CreateParameter (MakeShape F32 [])) [1]"

definition reduce_234_dim0 :: HloInstruction where
  "reduce_234_dim0 = CreateReduce (MakeShape F32 [3, 4])
     (CreateParameter (MakeShape F32 [2, 3, 4])) (CreateParameter (MakeShape F32 [])) [0]"

definition reduce_234_dim0_bad_shape :: HloInstruction where
  "reduce_234_dim0_bad_shape = CreateReduce (MakeShape F32 [3, 5])
     (CreateParameter (MakeShape F32 [2, 3, 4])) (CreateParameter (MakeShape F32 [])) [0]"

text \<open>
  Values for the device code: an empty module, a value that is the same on every
  lane, a value that holds the lane's thread index, and the lane selection that
  reads \<open>k\<close> thread indices ahead in the same block.
\<close>

definition empty_module :: emitter_state where
  "empty_module = \<lparr>module_functions = [], emitted_calls = []\<rparr>"

definition uniform_value :: "llvm_type \<Rightarrow> nat \<Rightarrow> Value" where
  "uniform_value ty n = \<lparr>getType = ty, at_lane = \<lambda>l. Bits n\<rparr>"

definition thread_index_value :: "llvm_type \<Rightarrow> Value" where
  "thread_index_value ty = \<lparr>getType = ty, at_lane = \<lambda>l. Bits (unat (fst l))\<rparr>"

definition lane_ahead :: "lane \<Rightarrow> 32 word \<Rightarrow> lane" where
  "lane_ahead l k = (fst l + k, snd l)"

section \<open>Properties\<close>

lemmas fixture_defs = MakeShape_def no_dot_dimension_numbers_def CreateParameter_def
  CreateDot_def CreateBinary_def CreateFusion_def CreateCustomCall_def
  dot_2x3_3x4_def dot_2x0_0x4_def dot_2x3_5x4_def dot_2x5_5x4_def

lemmas target_defs = kCudnnBatchNormForwardInferenceCallTarget_def
  kCudnnBatchNormForwardTrainingCallTarget_def kCudnnBatchNormBackwardCallTarget_def
  kCudnnConvForwardCallTarget_def kCudnnConvBackwardInputCallTarget_def
  kCudnnConvBackwardFilterCallTarget_def kCudnnConvBiasActivationForwardCallTarget_def

lemmas gemm_defs = ImplementedAsGemm_def DotImplementedAsGemm_def find_fused_dot_def
  AreValidGemmShapes_def IsRank2_def rank_def IsZeroElementArray_def operand_def Get_def
  contracting_extent_def lhs_batch_dimensions_size_def

lemmas reduce_defs = AreDimensionsConsecutive_def ShapeUtil_Equal_def FilterDimensions_def
  kept_dimensions_def CreateReduce_def CreateParameter_def MakeShape_def operand_def

lemma upt3: "[0..<3] = [0, 1, 2]"
  by (simp add: upt_rec)

lemma dims_to_keep_loop_eq:
  "0 \<le> dim \<Longrightarrow>
   dims_to_keep_loop rd N dim acc =
     acc @ filter (\<lambda>d. d \<notin> set rd) (map int [nat dim..<nat N])"
proof (induction rd N dim acc rule: dims_to_keep_loop.induct)
  case (1 rd N dim acc)
  show ?case
  proof (cases "dim < N")
    case True
    then have "nat dim < nat N" using "1.prems" by simp
    then have up: "[nat dim..<nat N] = nat dim # [nat (dim + 1)..<nat N]"
      using "1.prems" by (simp add: upt_conv_Cons nat_add_distrib)
    have "dims_to_keep_loop rd N dim acc =
          dims_to_keep_loop rd N (dim + 1)
            (if \<not> c_linear_search rd dim then acc @ [dim] else acc)"
      using True by (subst dims_to_keep_loop.simps) simp
    also have "\<dots> = (if \<not> c_linear_search rd dim then acc @ [dim] else acc) @
                 filter (\<lambda>d. d \<notin> set rd) (map int [nat (dim + 1)..<nat N])"
      using "1.IH" [OF True] "1.prems" by simp
    also have "\<dots> = acc @ filter (\<lambda>d. d \<notin> set rd) (map int [nat dim..<nat N])"
      using "1.prems" by (simp add: up c_linear_search_def)
    finally show ?thesis .
  next
    case False
    then have "[nat dim..<nat N] = []" using "1.prems" by simp
    with False show ?thesis by (subst dims_to_keep_loop.simps) simp
  qed
qed

lemma FilterDimensions_cong:
  assumes "\<And>i. i < length (dimensions s) \<Longrightarrow> p (int i) = q (int i)"
  shows "FilterDimensions p s = FilterDimensions q s"
proof -
  have a: "filter (\<lambda>i. \<not> p i) (map int [0..<length (dimensions s)]) =
           filter (\<lambda>i. \<not> q i) (map int [0..<length (dimensions s)])"
    using assms by (intro filter_cong) auto
  have b: "filter (\<lambda>i. p (int i)) [0..<length (dimensions s)] =
           filter (\<lambda>i. q (int i)) [0..<length (dimensions s)]"
    using assms by (intro filter_cong) auto
  show ?thesis unfolding FilterDimensions_def Let_def a b ..
qed

lemma c_count_kept:
  "i < length (dimensions s) \<Longrightarrow>
   (c_count (kept_dimensions reduce s) (int i) \<noteq> 0) = (int i \<notin> set (hlo_dimensions reduce))"
  by (auto simp: c_count_def kept_dimensions_def count_list_0_iff)

lemma IsReductionToVector_eq:
  assumes "operand reduce 0 = Inr input"
  shows "IsReductionToVector reduce =
     Inr (opcode reduce = kReduce \<and>
          AreDimensionsConsecutive (layout (shape input)) (kept_dimensions reduce (shape input)) \<and>
          ShapeUtil_Equal (shape reduce)
            (FilterDimensions (\<lambda>d. d \<notin> set (hlo_dimensions reduce)) (shape input)))"
proof -
  have k: "dims_to_keep_loop (hlo_dimensions reduce) (int (length (dimensions (shape input)))) 0 [] =
           kept_dimensions reduce (shape input)"
    by (simp add: dims_to_keep_loop_eq kept_dimensions_def)
  have f: "FilterDimensions (\<lambda>dim. c_count (kept_dimensions reduce (shape input)) dim \<noteq> 0) (shape input) =
           FilterDimensions (\<lambda>d. d \<notin> set (hlo_dimensions reduce)) (shape input)"
    by (rule FilterDimensions_cong) (rule c_count_kept)
  show ?thesis
    using assms by (auto simp: IsReductionToVector_def k f)
qed

lemma ImplementedAsGemm_output_fusion:
  assumes "opcode hlo = kFusion" and "fusion_kind hlo = kOutput"
    and "fused_expression_root hlo = Some root"
    and "opcode root = kMultiply \<or> opcode root = kAdd"
    and "operands root = [a, b]"
  shows "ImplementedAsGemm hlo =
           (if opcode a = kDot then DotImplementedAsGemm a
            else if opcode b = kDot then DotImplementedAsGemm b else Inr False)"
  using assms by (auto simp: ImplementedAsGemm_def find_fused_dot_def operand_def)

subsection \<open>GEMM shape eligibility\<close>

text \<open>
  C3. For all operand shapes, output shape and batch-dimension count \<open>B\<close>,
  \<^verbatim>\<open>AreValidGemmShapes\<close> holds exactly when the three shapes have rank \<open>B + 2\<close>, the
  output's element type is one of F16, F32, F64, C64, C128, and neither operand
  shape has an extent equal to zero.
\<close>

theorem AreValidGemmShapes_iff:
  "AreValidGemmShapes lhs_shape rhs_shape output_shape B \<longleftrightarrow>
     (rank lhs_shape = B + 2 \<and> rank rhs_shape = B + 2 \<and> rank output_shape = B + 2) \<and>
     element_type output_shape \<in> {F16, F32, F64, C64, C128} \<and>
     0 \<notin> set (dimensions lhs_shape) \<and> 0 \<notin> set (dimensions rhs_shape)"
  unfolding AreValidGemmShapes_def IsRank2_def IsZeroElementArray_def Let_def
  by auto

theorem AreValidGemmShapes_iff_witness:
  "AreValidGemmShapes (MakeShape F32 [2, 3]) (MakeShape F32 [3, 4]) (MakeShape F32 [2, 4]) 0 \<and>
   \<not> AreValidGemmShapes (MakeShape F32 [2, 3]) (MakeShape F32 [3, 4]) (MakeShape S32 [2, 4]) 0 \<and>
   \<not> AreValidGemmShapes (MakeShape F32 [2, 3]) (MakeShape F32 [0, 4]) (MakeShape F32 [2, 4]) 0 \<and>
   \<not> AreValidGemmShapes (MakeShape F32 [2, 3, 1]) (MakeShape F32 [3, 4]) (MakeShape F32 [2, 4]) 0"
  by (simp add: AreValidGemmShapes_iff MakeShape_def rank_def)



subsection \<open>Dot nodes and the contracting extents\<close>

text \<open>
  C4. For a dot node with two operands whose shapes pass \<^verbatim>\<open>AreValidGemmShapes\<close> and
  whose contracting extents are \<open>l\<close> and \<open>r\<close>: the classifier returns true when
  \<open>l = r\<close>, and stops on the failed \<^verbatim>\<open>CHECK_EQ\<close> (no boolean is returned) when
  \<open>l \<noteq> r\<close>. \<^verbatim>\<open>ImplementedAsGemm\<close> on the dot is \<^verbatim>\<open>DotImplementedAsGemm\<close>.
\<close>

theorem DotImplementedAsGemm_contracting:
  assumes "opcode dot = kDot"
    and "operand dot 0 = Inr lhs" and "operand dot 1 = Inr rhs"
    and "AreValidGemmShapes (shape lhs) (shape rhs) (shape dot)
           (lhs_batch_dimensions_size (dot_dimension_numbers dot))"
    and "contracting_extent (shape lhs)
           (lhs_contracting_dimensions (dot_dimension_numbers dot)) = Inr l"
    and "contracting_extent (shape rhs)
           (rhs_contracting_dimensions (dot_dimension_numbers dot)) = Inr r"
  shows "DotImplementedAsGemm dot = (if l = r then Inr True else Inl CheckFailed) \<and>
         ImplementedAsGemm dot = DotImplementedAsGemm dot"
  using assms by (simp add: DotImplementedAsGemm_def ImplementedAsGemm_def)

theorem DotImplementedAsGemm_contracting_witness:
  "(DotImplementedAsGemm dot_2x3_3x4 = Inr True \<and>
    ImplementedAsGemm dot_2x3_3x4 = DotImplementedAsGemm dot_2x3_3x4) \<and>
   (DotImplementedAsGemm dot_2x3_5x4 = Inl CheckFailed \<and>
    ImplementedAsGemm dot_2x3_5x4 = DotImplementedAsGemm dot_2x3_5x4)"
proof -
  have ok: "AreValidGemmShapes (MakeShape F32 [2, 3]) (MakeShape F32 [3, 4])
              (MakeShape F32 [2, 4]) 0"
    by (simp add: AreValidGemmShapes_def IsRank2_def rank_def IsZeroElementArray_def
        MakeShape_def)
  have bad: "AreValidGemmShapes (MakeShape F32 [2, 3]) (MakeShape F32 [5, 4])
              (MakeShape F32 [2, 4]) 0"
    by (simp add: AreValidGemmShapes_def IsRank2_def rank_def IsZeroElementArray_def
        MakeShape_def)
  have a: "DotImplementedAsGemm dot_2x3_3x4 = (if (3::int) = 3 then Inr True else Inl CheckFailed) \<and>
           ImplementedAsGemm dot_2x3_3x4 = DotImplementedAsGemm dot_2x3_3x4"
    by (rule DotImplementedAsGemm_contracting
          [where lhs = "CreateParameter (MakeShape F32 [2, 3])"
             and rhs = "CreateParameter (MakeShape F32 [3, 4])"])
       (simp_all add: ok dot_2x3_3x4_def CreateDot_def CreateParameter_def operand_def
          lhs_batch_dimensions_size_def contracting_extent_def Get_def,
        simp_all add: MakeShape_def)
  have b: "DotImplementedAsGemm dot_2x3_5x4 = (if (3::int) = 5 then Inr True else Inl CheckFailed) \<and>
           ImplementedAsGemm dot_2x3_5x4 = DotImplementedAsGemm dot_2x3_5x4"
    by (rule DotImplementedAsGemm_contracting
          [where lhs = "CreateParameter (MakeShape F32 [2, 3])"
             and rhs = "CreateParameter (MakeShape F32 [5, 4])"])
       (simp_all add: bad dot_2x3_5x4_def CreateDot_def CreateParameter_def operand_def
          lhs_batch_dimensions_size_def contracting_extent_def Get_def,
        simp_all add: MakeShape_def)
  from a b show ?thesis by simp
qed


subsection \<open>Output fusions: which operand holds the dot\<close>

text \<open>
  C2, as stated, fails: with an eligible dot as operand 0 and an ineligible dot
  (operands of zero elements) as operand 1 of a fused multiply, the output fusion
  classifies as true; with the two operands swapped it classifies as false,
  because the search stops at operand 0 whenever operand 0 is a dot.
\<close>

theorem ImplementedAsGemm_swap_counterexample:
  "DotImplementedAsGemm dot_2x3_3x4 = Inr True \<and>
   ImplementedAsGemm (CreateFusion (MakeShape F32 [2, 4]) kOutput
      (CreateBinary (MakeShape F32 [2, 4]) kMultiply dot_2x3_3x4 dot_2x0_0x4)) = Inr True \<and>
   ImplementedAsGemm (CreateFusion (MakeShape F32 [2, 4]) kOutput
      (CreateBinary (MakeShape F32 [2, 4]) kMultiply dot_2x0_0x4 dot_2x3_3x4)) = Inr False"
  by (simp add: gemm_defs fixture_defs)


text \<open>
  C2, amended. Take two output fusions whose fused roots have the same opcode,
  multiply or add, and the operands \<open>[p, q]\<close> and \<open>[q, p]\<close>, where \<open>p\<close> is a dot and
  \<open>q\<close> is not a dot, or is a dot that \<^verbatim>\<open>DotImplementedAsGemm\<close> classifies as it
  classifies \<open>p\<close>. Then both fusions classify as \<open>p\<close> does.
\<close>

theorem ImplementedAsGemm_swap_single_dot:
  assumes "opcode hlo = kFusion" and "fusion_kind hlo = kOutput"
    and "fused_expression_root hlo = Some root"
    and "opcode hlo' = kFusion" and "fusion_kind hlo' = kOutput"
    and "fused_expression_root hlo' = Some root'"
    and "opcode root = kMultiply \<or> opcode root = kAdd"
    and "opcode root' = opcode root"
    and "operands root = [p, q]" and "operands root' = [q, p]"
    and "opcode p = kDot"
    and "opcode q = kDot \<Longrightarrow> DotImplementedAsGemm q = DotImplementedAsGemm p"
  shows "ImplementedAsGemm hlo = DotImplementedAsGemm p \<and>
         ImplementedAsGemm hlo' = ImplementedAsGemm hlo"
proof -
  have 1: "ImplementedAsGemm hlo = DotImplementedAsGemm p"
    using assms(1,2,3,7,9,11) by (simp add: ImplementedAsGemm_output_fusion)
  have "opcode root' = kMultiply \<or> opcode root' = kAdd"
    using assms(7,8) by simp
  then have "ImplementedAsGemm hlo' =
      (if opcode q = kDot then DotImplementedAsGemm q else DotImplementedAsGemm p)"
    using assms(4,5,6,10,11) by (simp add: ImplementedAsGemm_output_fusion)
  then have 2: "ImplementedAsGemm hlo' = DotImplementedAsGemm p"
    using assms(12) by simp
  from 1 2 show ?thesis by simp
qed

theorem ImplementedAsGemm_swap_single_dot_witness:
  "(ImplementedAsGemm (CreateFusion (MakeShape F32 [2, 4]) kOutput
      (CreateBinary (MakeShape F32 [2, 4]) kMultiply dot_2x3_3x4
         (CreateParameter (MakeShape F32 [2, 4])))) = DotImplementedAsGemm dot_2x3_3x4 \<and>
    ImplementedAsGemm (CreateFusion (MakeShape F32 [2, 4]) kOutput
      (CreateBinary (MakeShape F32 [2, 4]) kMultiply
         (CreateParameter (MakeShape F32 [2, 4])) dot_2x3_3x4)) =
    ImplementedAsGemm (CreateFusion (MakeShape F32 [2, 4]) kOutput
      (CreateBinary (MakeShape F32 [2, 4]) kMultiply dot_2x3_3x4
         (CreateParameter (MakeShape F32 [2, 4]))))) \<and>
   (ImplementedAsGemm (CreateFusion (MakeShape F32 [2, 4]) kOutput
      (CreateBinary (MakeShape F32 [2, 4]) kAdd dot_2x3_3x4 dot_2x5_5x4)) =
      DotImplementedAsGemm dot_2x3_3x4 \<and>
    ImplementedAsGemm (CreateFusion (MakeShape F32 [2, 4]) kOutput
      (CreateBinary (MakeShape F32 [2, 4]) kAdd dot_2x5_5x4 dot_2x3_3x4)) =
    ImplementedAsGemm (CreateFusion (MakeShape F32 [2, 4]) kOutput
      (CreateBinary (MakeShape F32 [2, 4]) kAdd dot_2x3_3x4 dot_2x5_5x4)))"
proof -
  have same: "DotImplementedAsGemm dot_2x5_5x4 = DotImplementedAsGemm dot_2x3_3x4"
    by (simp add: gemm_defs fixture_defs)
  have one: "ImplementedAsGemm (CreateFusion (MakeShape F32 [2, 4]) kOutput
      (CreateBinary (MakeShape F32 [2, 4]) kMultiply dot_2x3_3x4
         (CreateParameter (MakeShape F32 [2, 4])))) = DotImplementedAsGemm dot_2x3_3x4 \<and>
    ImplementedAsGemm (CreateFusion (MakeShape F32 [2, 4]) kOutput
      (CreateBinary (MakeShape F32 [2, 4]) kMultiply
         (CreateParameter (MakeShape F32 [2, 4])) dot_2x3_3x4)) =
    ImplementedAsGemm (CreateFusion (MakeShape F32 [2, 4]) kOutput
      (CreateBinary (MakeShape F32 [2, 4]) kMultiply dot_2x3_3x4
         (CreateParameter (MakeShape F32 [2, 4]))))"
    by (rule ImplementedAsGemm_swap_single_dot
          [where root = "CreateBinary (MakeShape F32 [2, 4]) kMultiply dot_2x3_3x4
                           (CreateParameter (MakeShape F32 [2, 4]))"
             and root' = "CreateBinary (MakeShape F32 [2, 4]) kMultiply
                           (CreateParameter (MakeShape F32 [2, 4])) dot_2x3_3x4"
             and q = "CreateParameter (MakeShape F32 [2, 4])"])
       (simp_all add: CreateFusion_def CreateBinary_def CreateParameter_def dot_2x3_3x4_def
          CreateDot_def)
  have both: "ImplementedAsGemm (CreateFusion (MakeShape F32 [2, 4]) kOutput
      (CreateBinary (MakeShape F32 [2, 4]) kAdd dot_2x3_3x4 dot_2x5_5x4)) =
      DotImplementedAsGemm dot_2x3_3x4 \<and>
    ImplementedAsGemm (CreateFusion (MakeShape F32 [2, 4]) kOutput
      (CreateBinary (MakeShape F32 [2, 4]) kAdd dot_2x5_5x4 dot_2x3_3x4)) =
    ImplementedAsGemm (CreateFusion (MakeShape F32 [2, 4]) kOutput
      (CreateBinary (MakeShape F32 [2, 4]) kAdd dot_2x3_3x4 dot_2x5_5x4))"
    by (rule ImplementedAsGemm_swap_single_dot
          [where root = "CreateBinary (MakeShape F32 [2, 4]) kAdd dot_2x3_3x4 dot_2x5_5x4"
             and root' = "CreateBinary (MakeShape F32 [2, 4]) kAdd dot_2x5_5x4 dot_2x3_3x4"
             and q = dot_2x5_5x4])
       (simp_all add: same CreateFusion_def CreateBinary_def,
        simp_all add: dot_2x3_3x4_def CreateDot_def)
  from one both show ?thesis by (rule conjI)
qed

text \<open>
  C10. A fusion node whose fusion kind is not \<^verbatim>\<open>kOutput\<close> is never implemented as
  a GEMM, whatever its fused root and the root's operands are.
\<close>

theorem ImplementedAsGemm_not_output_fusion:
  assumes "opcode hlo = kFusion" and "fusion_kind hlo \<noteq> kOutput"
  shows "ImplementedAsGemm hlo = Inr False"
  using assms by (simp add: ImplementedAsGemm_def)

theorem ImplementedAsGemm_not_output_fusion_witness:
  "ImplementedAsGemm (CreateFusion (MakeShape F32 [2, 4]) kLoop
      (CreateBinary (MakeShape F32 [2, 4]) kMultiply dot_2x3_3x4
         (CreateParameter (MakeShape F32 [2, 4])))) = Inr False \<and>
   ImplementedAsGemm (CreateFusion (MakeShape F32 [2, 4]) kOutput
      (CreateBinary (MakeShape F32 [2, 4]) kMultiply dot_2x3_3x4
         (CreateParameter (MakeShape F32 [2, 4])))) = Inr True"
proof -
  have "ImplementedAsGemm (CreateFusion (MakeShape F32 [2, 4]) kLoop
      (CreateBinary (MakeShape F32 [2, 4]) kMultiply dot_2x3_3x4
         (CreateParameter (MakeShape F32 [2, 4])))) = Inr False"
    by (rule ImplementedAsGemm_not_output_fusion) (simp_all add: CreateFusion_def)
  moreover have "ImplementedAsGemm (CreateFusion (MakeShape F32 [2, 4]) kOutput
      (CreateBinary (MakeShape F32 [2, 4]) kMultiply dot_2x3_3x4
         (CreateParameter (MakeShape F32 [2, 4])))) = Inr True"
    by (simp add: gemm_defs fixture_defs)
  ultimately show ?thesis by simp
qed


subsection \<open>Reduction to vector\<close>

text \<open>
  C5. A node that is not a reduce is not a reduction to vector. For a node with an
  operand 0, \<^verbatim>\<open>IsReductionToVector\<close> holds exactly when the opcode is reduce, the
  kept dimensions (the ascending complement of the reduced dimensions against the
  input's rank) are consecutive under the input's layout, and the node's shape
  equals the input's shape with the reduced dimensions filtered out. Each of the
  last two conditions is needed: reducing dimension 1 of a [2,3,4] input into
  [2,4] has the right shape and kept dimensions that are not consecutive;
  reducing dimension 0 into [3,5] has consecutive kept dimensions and the wrong
  shape; both are rejected.
\<close>

theorem IsReductionToVector_iff:
  "(opcode reduce \<noteq> kReduce \<longrightarrow> IsReductionToVector reduce = Inr False) \<and>
   (operand reduce 0 = Inr input \<longrightarrow>
      IsReductionToVector reduce =
        Inr (opcode reduce = kReduce \<and>
             AreDimensionsConsecutive (layout (shape input))
               (kept_dimensions reduce (shape input)) \<and>
             ShapeUtil_Equal (shape reduce)
               (FilterDimensions (\<lambda>d. d \<notin> set (hlo_dimensions reduce)) (shape input)))) \<and>
   (ShapeUtil_Equal (shape reduce_234_dim1)
      (FilterDimensions (\<lambda>d. d \<notin> set (hlo_dimensions reduce_234_dim1))
         (MakeShape F32 [2, 3, 4])) \<and>
    \<not> AreDimensionsConsecutive (layout (MakeShape F32 [2, 3, 4]))
        (kept_dimensions reduce_234_dim1 (MakeShape F32 [2, 3, 4])) \<and>
    IsReductionToVector reduce_234_dim1 = Inr False) \<and>
   (AreDimensionsConsecutive (layout (MakeShape F32 [2, 3, 4]))
      (kept_dimensions reduce_234_dim0_bad_shape (MakeShape F32 [2, 3, 4])) \<and>
    \<not> ShapeUtil_Equal (shape reduce_234_dim0_bad_shape)
        (FilterDimensions (\<lambda>d. d \<notin> set (hlo_dimensions reduce_234_dim0_bad_shape))
           (MakeShape F32 [2, 3, 4])) \<and>
    IsReductionToVector reduce_234_dim0_bad_shape = Inr False)"
proof -
  have a: "opcode reduce \<noteq> kReduce \<longrightarrow> IsReductionToVector reduce = Inr False"
    by (auto simp: IsReductionToVector_def)
  have b: "operand reduce 0 = Inr input \<longrightarrow>
      IsReductionToVector reduce =
        Inr (opcode reduce = kReduce \<and>
             AreDimensionsConsecutive (layout (shape input))
               (kept_dimensions reduce (shape input)) \<and>
             ShapeUtil_Equal (shape reduce)
               (FilterDimensions (\<lambda>d. d \<notin> set (hlo_dimensions reduce)) (shape input)))"
    by (simp add: IsReductionToVector_eq)
  have c1: "ShapeUtil_Equal (shape reduce_234_dim1)
      (FilterDimensions (\<lambda>d. d \<notin> set (hlo_dimensions reduce_234_dim1))
         (MakeShape F32 [2, 3, 4]))"
    by (simp add: reduce_234_dim1_def reduce_defs upt3)
  have c2: "\<not> AreDimensionsConsecutive (layout (MakeShape F32 [2, 3, 4]))
        (kept_dimensions reduce_234_dim1 (MakeShape F32 [2, 3, 4]))"
    by (simp add: reduce_234_dim1_def reduce_defs upt3)
  have c3: "IsReductionToVector reduce_234_dim1 = Inr False"
    using c2 IsReductionToVector_eq [of reduce_234_dim1 "CreateParameter (MakeShape F32 [2, 3, 4])"]
    by (simp add: reduce_234_dim1_def CreateReduce_def CreateParameter_def operand_def)
  have d1: "AreDimensionsConsecutive (layout (MakeShape F32 [2, 3, 4]))
      (kept_dimensions reduce_234_dim0_bad_shape (MakeShape F32 [2, 3, 4]))"
    by (simp add: reduce_234_dim0_bad_shape_def reduce_defs upt3)
  have d2: "\<not> ShapeUtil_Equal (shape reduce_234_dim0_bad_shape)
        (FilterDimensions (\<lambda>d. d \<notin> set (hlo_dimensions reduce_234_dim0_bad_shape))
           (MakeShape F32 [2, 3, 4]))"
    by (simp add: reduce_234_dim0_bad_shape_def reduce_defs upt3)
  have d3: "IsReductionToVector reduce_234_dim0_bad_shape = Inr False"
    using d2 IsReductionToVector_eq [of reduce_234_dim0_bad_shape "CreateParameter (MakeShape F32 [2, 3, 4])"]
    by (simp add: reduce_234_dim0_bad_shape_def CreateReduce_def CreateParameter_def operand_def)
  from a b c1 c2 c3 d1 d2 d3 show ?thesis by blast
qed

theorem IsReductionToVector_iff_witness:
  "IsReductionToVector reduce_234_dim0 = Inr True \<and>
   IsReductionToVector dot_2x3_3x4 = Inr False"
proof -
  have k: "kept_dimensions reduce_234_dim0 (MakeShape F32 [2, 3, 4]) = [1, 2]"
    by (simp add: reduce_234_dim0_def reduce_defs upt3)
  have op: "operand reduce_234_dim0 0 = Inr (CreateParameter (MakeShape F32 [2, 3, 4]))"
    by (simp add: reduce_234_dim0_def CreateReduce_def operand_def)
  have nr: "opcode dot_2x3_3x4 \<noteq> kReduce"
    by (simp add: dot_2x3_3x4_def CreateDot_def)
  have sh: "shape (CreateParameter (MakeShape F32 [2, 3, 4])) = MakeShape F32 [2, 3, 4]"
    by (simp add: CreateParameter_def)
  have "IsReductionToVector reduce_234_dim0 =
        Inr (opcode reduce_234_dim0 = kReduce \<and>
             AreDimensionsConsecutive (layout (MakeShape F32 [2, 3, 4])) [1, 2] \<and>
             ShapeUtil_Equal (shape reduce_234_dim0)
               (FilterDimensions (\<lambda>d. d \<notin> set (hlo_dimensions reduce_234_dim0))
                  (MakeShape F32 [2, 3, 4])))"
    using IsReductionToVector_iff [of reduce_234_dim0
            "CreateParameter (MakeShape F32 [2, 3, 4])"] op
    by (simp only: sh k simp_thms)
  moreover have "IsReductionToVector dot_2x3_3x4 = Inr False"
    using IsReductionToVector_iff [of dot_2x3_3x4 dot_2x3_3x4] nr by blast
  ultimately show ?thesis
    by (simp add: reduce_234_dim0_def reduce_defs upt3)
qed


subsection \<open>cuDNN call targets\<close>

text \<open>
  C6. \<^verbatim>\<open>IsCustomCallToDnnBatchNorm\<close> holds exactly when the opcode is custom-call
  and the target is one of the three batch-normalisation identifiers;
  \<^verbatim>\<open>IsCustomCallToDnnConvolution\<close> holds exactly when the opcode is custom-call and
  the target is one of the four convolution identifiers; the two sets of
  identifiers are disjoint, and no node satisfies both predicates.
\<close>

theorem custom_call_classification:
  "(IsCustomCallToDnnBatchNorm hlo \<longleftrightarrow>
      opcode hlo = kCustomCall \<and>
      custom_call_target hlo \<in> {kCudnnBatchNormForwardInferenceCallTarget,
        kCudnnBatchNormForwardTrainingCallTarget, kCudnnBatchNormBackwardCallTarget}) \<and>
   (IsCustomCallToDnnConvolution hlo \<longleftrightarrow>
      opcode hlo = kCustomCall \<and>
      custom_call_target hlo \<in> {kCudnnConvForwardCallTarget,
        kCudnnConvBackwardInputCallTarget, kCudnnConvBackwardFilterCallTarget,
        kCudnnConvBiasActivationForwardCallTarget}) \<and>
   {kCudnnBatchNormForwardInferenceCallTarget, kCudnnBatchNormForwardTrainingCallTarget,
    kCudnnBatchNormBackwardCallTarget} \<inter>
   {kCudnnConvForwardCallTarget, kCudnnConvBackwardInputCallTarget,
    kCudnnConvBackwardFilterCallTarget, kCudnnConvBiasActivationForwardCallTarget} = {} \<and>
   \<not> (IsCustomCallToDnnBatchNorm hlo \<and> IsCustomCallToDnnConvolution hlo)"
proof -
  have bn: "IsCustomCallToDnnBatchNorm hlo \<longleftrightarrow>
      opcode hlo = kCustomCall \<and>
      custom_call_target hlo \<in> {kCudnnBatchNormForwardInferenceCallTarget,
        kCudnnBatchNormForwardTrainingCallTarget, kCudnnBatchNormBackwardCallTarget}"
    by (simp add: IsCustomCallToDnnBatchNorm_def Let_def)
  have cv: "IsCustomCallToDnnConvolution hlo \<longleftrightarrow>
      opcode hlo = kCustomCall \<and>
      custom_call_target hlo \<in> {kCudnnConvForwardCallTarget,
        kCudnnConvBackwardInputCallTarget, kCudnnConvBackwardFilterCallTarget,
        kCudnnConvBiasActivationForwardCallTarget}"
    by (simp add: IsCustomCallToDnnConvolution_def Let_def)
  have dj: "{kCudnnBatchNormForwardInferenceCallTarget, kCudnnBatchNormForwardTrainingCallTarget,
    kCudnnBatchNormBackwardCallTarget} \<inter>
   {kCudnnConvForwardCallTarget, kCudnnConvBackwardInputCallTarget,
    kCudnnConvBackwardFilterCallTarget, kCudnnConvBiasActivationForwardCallTarget} = {}"
    by (simp add: kCudnnBatchNormForwardInferenceCallTarget_def
        kCudnnBatchNormForwardTrainingCallTarget_def kCudnnBatchNormBackwardCallTarget_def
        kCudnnConvForwardCallTarget_def kCudnnConvBackwardInputCallTarget_def
        kCudnnConvBackwardFilterCallTarget_def kCudnnConvBiasActivationForwardCallTarget_def)
  have "\<not> (IsCustomCallToDnnBatchNorm hlo \<and> IsCustomCallToDnnConvolution hlo)"
    using dj unfolding bn cv by blast
  with bn cv dj show ?thesis by blast
qed

theorem custom_call_classification_witness:
  "(IsCustomCallToDnnConvolution (CreateCustomCall (MakeShape F32 [2, 4]) ''__cudnn$convForward'') \<and>
    \<not> IsCustomCallToDnnBatchNorm (CreateCustomCall (MakeShape F32 [2, 4]) ''__cudnn$convForward'')) \<and>
   (\<not> IsCustomCallToDnnConvolution (CreateCustomCall (MakeShape F32 [2, 4]) ''__cudnn$convForward '') \<and>
    \<not> IsCustomCallToDnnBatchNorm (CreateCustomCall (MakeShape F32 [2, 4]) ''__cudnn$convForward '')) \<and>
   (IsCustomCallToDnnBatchNorm
      (CreateCustomCall (MakeShape F32 [2, 4]) ''__cudnn$batchNormalizationBackward'') \<and>
    \<not> IsCustomCallToDnnConvolution
      (CreateCustomCall (MakeShape F32 [2, 4]) ''__cudnn$batchNormalizationBackward''))"
  using custom_call_classification
          [of "CreateCustomCall (MakeShape F32 [2, 4]) ''__cudnn$convForward''"]
        custom_call_classification
          [of "CreateCustomCall (MakeShape F32 [2, 4]) ''__cudnn$convForward ''"]
        custom_call_classification
          [of "CreateCustomCall (MakeShape F32 [2, 4]) ''__cudnn$batchNormalizationBackward''"]
  by (simp add: CreateCustomCall_def target_defs)

text \<open>
  C7. \<^verbatim>\<open>GetCudnnConvKind\<close> returns \<^verbatim>\<open>kForward\<close>, \<^verbatim>\<open>kBackwardInput\<close>,
  \<^verbatim>\<open>kBackwardFilter\<close> or \<^verbatim>\<open>kForwardActivation\<close> when the call target is the
  forward, backward-input, backward-filter or bias-activation-forward identifier,
  and for every other target an internal error whose message ends with exactly
  that target; it then returns no kind.
\<close>

theorem GetCudnnConvKind_cases:
  "(custom_call_target instr = kCudnnConvForwardCallTarget \<longrightarrow>
      GetCudnnConvKind instr = Inr kForward) \<and>
   (custom_call_target instr = kCudnnConvBackwardInputCallTarget \<longrightarrow>
      GetCudnnConvKind instr = Inr kBackwardInput) \<and>
   (custom_call_target instr = kCudnnConvBackwardFilterCallTarget \<longrightarrow>
      GetCudnnConvKind instr = Inr kBackwardFilter) \<and>
   (custom_call_target instr = kCudnnConvBiasActivationForwardCallTarget \<longrightarrow>
      GetCudnnConvKind instr = Inr kForwardActivation) \<and>
   (custom_call_target instr \<notin> {kCudnnConvForwardCallTarget, kCudnnConvBackwardInputCallTarget,
        kCudnnConvBackwardFilterCallTarget, kCudnnConvBiasActivationForwardCallTarget} \<longrightarrow>
      GetCudnnConvKind instr =
        Inl (InternalError (''Unexpected call target: '' @ custom_call_target instr)) \<and>
      (\<forall>kind. GetCudnnConvKind instr \<noteq> Inr kind))"
  by (simp add: GetCudnnConvKind_def Let_def target_defs)

theorem GetCudnnConvKind_cases_witness:
  "GetCudnnConvKind (CreateCustomCall (MakeShape F32 [2, 4]) ''__cudnn$convForward'') =
     Inr kForward \<and>
   GetCudnnConvKind (CreateCustomCall (MakeShape F32 [2, 4]) ''__cudnn$convBackwardInput'') =
     Inr kBackwardInput \<and>
   GetCudnnConvKind (CreateCustomCall (MakeShape F32 [2, 4]) ''__cudnn$convBackwardFilter'') =
     Inr kBackwardFilter \<and>
   GetCudnnConvKind
     (CreateCustomCall (MakeShape F32 [2, 4]) ''__cudnn$convBiasActivationForward'') =
     Inr kForwardActivation \<and>
   GetCudnnConvKind (CreateCustomCall (MakeShape F32 [2, 4]) ''__cudnn$convForward '') =
     Inl (InternalError ''Unexpected call target: __cudnn$convForward '')"
  using GetCudnnConvKind_cases
          [of "CreateCustomCall (MakeShape F32 [2, 4]) ''__cudnn$convForward''"]
        GetCudnnConvKind_cases
          [of "CreateCustomCall (MakeShape F32 [2, 4]) ''__cudnn$convBackwardInput''"]
        GetCudnnConvKind_cases
          [of "CreateCustomCall (MakeShape F32 [2, 4]) ''__cudnn$convBackwardFilter''"]
        GetCudnnConvKind_cases
          [of "CreateCustomCall (MakeShape F32 [2, 4]) ''__cudnn$convBiasActivationForward''"]
        GetCudnnConvKind_cases
          [of "CreateCustomCall (MakeShape F32 [2, 4]) ''__cudnn$convForward ''"]
  by (simp add: CreateCustomCall_def target_defs)

subsection \<open>Segments of a bit pattern\<close>

lemma length_split_bits: "length (split_bits w k n) = k"
  by (induction k arbitrary: n) simp_all

lemma split_bits_bound: "e \<in> set (split_bits w k n) \<Longrightarrow> e < 2 ^ w"
  by (induction k arbitrary: n) auto

lemma join_split_bits: "join_bits w (split_bits w k n) = n mod 2 ^ (w * k)"
proof (induction k arbitrary: n)
  case 0
  show ?case by simp
next
  case (Suc k)
  have "n mod 2 ^ w + 2 ^ w * (n div 2 ^ w mod 2 ^ (w * k)) = n mod (2 ^ w * 2 ^ (w * k))"
    by (simp add: mod_mult2_eq)
  then show ?case
    by (simp add: Suc.IH power_add)
qed

lemma join_split_bits_small:
  "n < 2 ^ (w * k) \<Longrightarrow> join_bits w (split_bits w k n) = n"
  by (simp add: join_split_bits)

lemma width_covered: "w \<le> 32 * CeilOfRatio w 32"
  unfolding CeilOfRatio_def by presburger

lemma pattern_covered:
  assumes "n < 2 ^ w"
  shows "n < (2::nat) ^ (32 * CeilOfRatio w 32)"
proof -
  have "(2::nat) ^ w \<le> 2 ^ (32 * CeilOfRatio w 32)"
    by (rule power_increasing [OF width_covered]) simp
  with assms show ?thesis by (rule less_le_trans)
qed

lemma exchange_prefix_step:
  assumes "length P = N" and "length Q = N" and "i < N"
  shows "(take i P @ drop i Q)[i := P ! i] = take (Suc i) P @ drop (Suc i) Q"
proof -
  have q: "drop i Q = Q ! i # drop (Suc i) Q"
    using assms by (simp add: Cons_nth_drop_Suc)
  have p: "take (Suc i) P = take i P @ [P ! i]"
    using assms by (simp add: take_Suc_conv_app_nth)
  have "length (take i P) = i" using assms by simp
  then show ?thesis
    by (simp add: q p list_update_append)
qed

lemma exchange_prefix_nth:
  assumes "length P = N" and "length Q = N" and "i < N"
  shows "(take i P @ drop i Q) ! i = Q ! i"
  using assms by (simp add: nth_append)

lemma unat_i32_small: "e < 2 ^ 32 \<Longrightarrow> unat (word_of_nat e :: 32 word) = e"
  by (simp add: unat_of_nat)

lemma as_i32_Bits: "as_i32 (Bits n) = Some (word_of_nat n)"
  by (simp add: as_i32_def)

lemma shuffle_step:
  assumes len: "\<And>l. length (A l) = N"
    and small: "\<And>l e. e \<in> set (A l) \<Longrightarrow> e < 2 ^ 32"
    and off: "\<And>l. as_i32 (at_lane offset l) = Some (k l)"
    and i: "i < N"
  shows "CreateInsertElement
           \<lparr>getType = t, at_lane = \<lambda>l. Elems (take i (A (src l (k l))) @ drop i (A l))\<rparr>
           (fst (EmitDeviceFunctionCall (device_library src) ''__ockl_readuplane_i32''
              [CreateExtractElement
                 \<lparr>getType = t, at_lane = \<lambda>l. Elems (take i (A (src l (k l))) @ drop i (A l))\<rparr> i,
               offset] [S32, S32] S32 st)) i =
         \<lparr>getType = t, at_lane = \<lambda>l. Elems (take (Suc i) (A (src l (k l))) @ drop (Suc i) (A l))\<rparr>"
proof -
  have cur: "\<And>l. length (take i (A (src l (k l))) @ drop i (A l)) = N"
    using len i by simp
  have elt: "\<And>l. (take i (A (src l (k l))) @ drop i (A l)) ! i = A l ! i"
    using exchange_prefix_nth [OF len len i] .
  have bound: "\<And>l. A l ! i < 2 ^ 32"
    using small len i by (metis nth_mem)
  have rt: "\<And>l. unat (word_of_nat (A l ! i) :: 32 word) = A l ! i"
    using bound by (rule unat_i32_small)
  have rd: "\<And>l. ockl_readuplane_i32 src
              (\<lambda>l. Bits (A l ! i)) (at_lane offset) l = Bits (A (src l (k l)) ! i)"
    by (simp add: ockl_readuplane_i32_def off as_i32_Bits rt)
  have upd: "\<And>l. (take i (A (src l (k l))) @ drop i (A l))[i := A (src l (k l)) ! i] =
                  take (Suc i) (A (src l (k l))) @ drop (Suc i) (A l)"
    using exchange_prefix_step [OF len len i] .
  have extr: "CreateExtractElement
               \<lparr>getType = t, at_lane = \<lambda>l. Elems (take i (A (src l (k l))) @ drop i (A l))\<rparr> i =
             \<lparr>getType = getElementType t, at_lane = \<lambda>l. Bits (A l ! i)\<rparr>"
    unfolding CreateExtractElement_def
    by (simp only: Value.select_convs payload.case cur elt i if_True)
  have call: "fst (EmitDeviceFunctionCall (device_library src) ''__ockl_readuplane_i32''
                [\<lparr>getType = getElementType t, at_lane = \<lambda>l. Bits (A l ! i)\<rparr>, offset]
                [S32, S32] S32 st) =
              \<lparr>getType = IntegerTy 32, at_lane = \<lambda>l. Bits (A (src l (k l)) ! i)\<rparr>"
    by (simp add: EmitDeviceFunctionCall_def device_library_def rd fun_eq_iff)
  have ins: "CreateInsertElement
               \<lparr>getType = t, at_lane = \<lambda>l. Elems (take i (A (src l (k l))) @ drop i (A l))\<rparr>
               \<lparr>getType = IntegerTy 32, at_lane = \<lambda>l. Bits (A (src l (k l)) ! i)\<rparr> i =
             \<lparr>getType = t,
              at_lane = \<lambda>l. Elems (take (Suc i) (A (src l (k l))) @ drop (Suc i) (A l))\<rparr>"
    unfolding CreateInsertElement_def
    by (simp only: Value.select_convs payload.case cur upd i if_True)
  show ?thesis
    by (simp only: extr call ins)
qed

lemma shuffle_segments_value:
  assumes len: "\<And>l. length (A l) = N"
    and small: "\<And>l e. e \<in> set (A l) \<Longrightarrow> e < 2 ^ 32"
    and off: "\<And>l. as_i32 (at_lane offset l) = Some (k l)"
  shows "i \<le> N \<Longrightarrow>
         fst (shuffle_segments (device_library src) offset N i
                \<lparr>getType = t, at_lane = \<lambda>l. Elems (take i (A (src l (k l))) @ drop i (A l))\<rparr> st) =
         \<lparr>getType = t, at_lane = \<lambda>l. Elems (A (src l (k l)))\<rparr>"
proof (induction "N - i" arbitrary: i st)
  case 0
  then have "i = N" by simp
  then show ?case
    by (subst shuffle_segments.simps) (simp add: len)
next
  case (Suc d)
  then have i: "i < N" by simp
  obtain r st' where call:
    "EmitDeviceFunctionCall (device_library src) ''__ockl_readuplane_i32''
       [CreateExtractElement
          \<lparr>getType = t, at_lane = \<lambda>l. Elems (take i (A (src l (k l))) @ drop i (A l))\<rparr> i,
        offset] [S32, S32] S32 st = (r, st')"
    by (cases "EmitDeviceFunctionCall (device_library src) ''__ockl_readuplane_i32''
       [CreateExtractElement
          \<lparr>getType = t, at_lane = \<lambda>l. Elems (take i (A (src l (k l))) @ drop i (A l))\<rparr> i,
        offset] [S32, S32] S32 st")
  have step: "CreateInsertElement
           \<lparr>getType = t, at_lane = \<lambda>l. Elems (take i (A (src l (k l))) @ drop i (A l))\<rparr> r i =
         \<lparr>getType = t, at_lane = \<lambda>l. Elems (take (Suc i) (A (src l (k l))) @ drop (Suc i) (A l))\<rparr>"
    using shuffle_step [where A = A and N = N and k = k and offset = offset and i = i
        and t = t and src = src and st = st, OF len small off i]
    by (simp add: call)
  have "d = N - Suc i" and "Suc i \<le> N" using Suc.hyps(2) i by simp_all
  then have ih: "fst (shuffle_segments (device_library src) offset N (Suc i)
                \<lparr>getType = t, at_lane = \<lambda>l. Elems (take (Suc i) (A (src l (k l))) @ drop (Suc i) (A l))\<rparr> st') =
         \<lparr>getType = t, at_lane = \<lambda>l. Elems (A (src l (k l)))\<rparr>"
    using Suc.hyps(1) by simp
  show ?case
    by (subst shuffle_segments.simps) (simp add: i call step ih)
qed

lemma emitted_calls_funpow:
  "emitted_calls ((emit_call name ^^ n) st) = emitted_calls st @ replicate n name"
  by (induction n) (simp_all add: emit_call_def replicate_append_same)

lemma shuffle_segments_state:
  "snd (shuffle_segments lib offset N i x st) =
     (emit_call ''__ockl_readuplane_i32'' ^^ (N - i)) st"
proof (induction lib offset N i x st rule: shuffle_segments.induct)
  case (1 lib offset N i x st)
  show ?case
  proof (cases "i < N")
    case True
    obtain r st' where call:
      "EmitDeviceFunctionCall lib ''__ockl_readuplane_i32''
         [CreateExtractElement x i, offset] [S32, S32] S32 st = (r, st')"
      by (cases "EmitDeviceFunctionCall lib ''__ockl_readuplane_i32''
         [CreateExtractElement x i, offset] [S32, S32] S32 st")
    have st': "st' = emit_call ''__ockl_readuplane_i32'' st"
      using call by (auto simp: EmitDeviceFunctionCall_def)
    have cnt: "N - i = Suc (N - (i + 1))"
      using True by simp
    have "snd (shuffle_segments lib offset N (i + 1) (CreateInsertElement x r i) st') =
          (emit_call ''__ockl_readuplane_i32'' ^^ (N - (i + 1))) st'"
      using "1.IH" [OF True call [symmetric] refl] .
    then show ?thesis
      by (subst shuffle_segments.simps) (simp add: True call st' cnt funpow_Suc_right del: funpow.simps)
  next
    case False
    then show ?thesis
      by (subst shuffle_segments.simps) simp
  qed
qed

lemma shuffle_segments_calls:
  "emitted_calls (snd (shuffle_segments lib offset N i x st)) =
     emitted_calls st @ replicate (N - i) ''__ockl_readuplane_i32''"
  by (simp add: shuffle_segments_state emitted_calls_funpow)

subsection \<open>The two paths of the shuffle\<close>

lemma of_pattern_scalar: "is_scalar_type t \<Longrightarrow> of_pattern t n = Bits n"
  by (cases t) (simp_all add: of_pattern_def)

lemma of_pattern_VectorTy:
  "of_pattern (VectorTy et k) n = Elems (split_bits (getPrimitiveSizeInBits et) k n)"
  by (simp add: of_pattern_def)

lemma to_pattern_Elems:
  "to_pattern (VectorTy et k) (Elems xs) = Some (join_bits (getPrimitiveSizeInBits et) xs)"
  by (simp add: to_pattern_def)

lemma to_pattern_Bits: "to_pattern t (Bits n) = Some n"
  by (simp add: to_pattern_def)

lemma holds_bit_patternD:
  assumes "holds_bit_pattern v"
  shows "\<exists>pat. (\<forall>l. at_lane v l = Bits (pat l)) \<and>
               (\<forall>l. pat l < 2 ^ getPrimitiveSizeInBits (getType v))"
proof -
  from assms have "\<forall>l. \<exists>n. n < 2 ^ getPrimitiveSizeInBits (getType v) \<and> at_lane v l = Bits n"
    by (auto simp: holds_bit_pattern_def)
  then obtain pat where
    "\<forall>l. pat l < 2 ^ getPrimitiveSizeInBits (getType v) \<and> at_lane v l = Bits (pat l)"
    by metis
  then show ?thesis by blast
qed

lemma whole_pattern_exchange_Bits:
  assumes "\<And>l. at_lane v l = Bits (pat l)"
    and "\<And>l. as_i32 (at_lane offset l) = Some (k l)"
  shows "whole_pattern_exchange src v offset =
           \<lparr>getType = getType v, at_lane = \<lambda>l. Bits (pat (src l (k l)))\<rparr>"
  by (simp add: whole_pattern_exchange_def assms)

lemma general_path_value:
  assumes scalar: "is_scalar_type (getType v)"
    and pat: "\<And>l. at_lane v l = Bits (pat l)"
    and small: "\<And>l. pat l < 2 ^ getPrimitiveSizeInBits (getType v)"
    and off: "\<And>l. as_i32 (at_lane offset l) = Some (k l)"
  shows "fst (EmitFullWarpShuffleDown_general (device_library src) v offset st) =
           \<lparr>getType = getType v, at_lane = \<lambda>l. Bits (pat (src l (k l)))\<rparr>"
proof -
  define W where "W = getPrimitiveSizeInBits (getType v)"
  define N where "N = CeilOfRatio W 32"
  define A where "A = (\<lambda>l. split_bits 32 N (pat l))"
  have len: "\<And>l. length (A l) = N"
    by (simp add: A_def length_split_bits)
  have bnd: "\<And>l e. e \<in> set (A l) \<Longrightarrow> e < 2 ^ 32"
    unfolding A_def by (rule split_bits_bound)
  have cover: "\<And>l. pat l < 2 ^ (32 * N)"
    unfolding N_def using small [folded W_def] by (rule pattern_covered)
  have x0: "CreateBitCast
              (CreateZExt (CreateBitCast v (getIntNTy W)) (getIntNTy (32 * N)))
              (VectorTy getInt32Ty N) =
            \<lparr>getType = VectorTy getInt32Ty N,
             at_lane = \<lambda>l. Elems (take 0 (A (src l (k l))) @ drop 0 (A l))\<rparr>"
    by (simp add: CreateBitCast_def CreateZExt_def getIntNTy_def getInt32Ty_def pat
        to_pattern_Bits of_pattern_scalar of_pattern_VectorTy A_def)
  have loop: "fst (shuffle_segments (device_library src) offset N 0
                 \<lparr>getType = VectorTy getInt32Ty N,
                  at_lane = \<lambda>l. Elems (take 0 (A (src l (k l))) @ drop 0 (A l))\<rparr> st) =
              \<lparr>getType = VectorTy getInt32Ty N, at_lane = \<lambda>l. Elems (A (src l (k l)))\<rparr>"
    by (rule shuffle_segments_value [where A = A and N = N and k = k and i = 0,
          OF len bnd off le0])
  have joined: "\<And>l. join_bits 32 (A l) = pat l"
    unfolding A_def using cover by (rule join_split_bits_small)
  have trunc: "\<And>l. pat l mod 2 ^ W = pat l"
    using small [folded W_def] by simp
  have recast: "CreateBitCast
                (CreateTrunc
                   (CreateBitCast
                      \<lparr>getType = VectorTy getInt32Ty N, at_lane = \<lambda>l. Elems (A (src l (k l)))\<rparr>
                      (getIntNTy (32 * N)))
                   (getIntNTy W))
                (getType v) =
              \<lparr>getType = getType v, at_lane = \<lambda>l. Bits (pat (src l (k l)))\<rparr>"
    by (simp add: CreateBitCast_def CreateTrunc_def getIntNTy_def getInt32Ty_def
        to_pattern_Elems to_pattern_Bits of_pattern_scalar scalar joined trunc)
  show ?thesis
    unfolding EmitFullWarpShuffleDown_general_def Let_def W_def [symmetric] N_def [symmetric] x0
    using loop recast by (simp add: split_beta)
qed

lemma fast_path_value:
  assumes ty: "getType v = FloatTy"
    and pat: "\<And>l. at_lane v l = Bits (pat l)"
    and small: "\<And>l. pat l < 2 ^ 32"
    and off: "\<And>l. as_i32 (at_lane offset l) = Some (k l)"
  shows "fst (EmitFullWarpShuffleDown_fast (device_library src) v offset st) =
           \<lparr>getType = getType v, at_lane = \<lambda>l. Bits (pat (src l (k l)))\<rparr>"
proof -
  have rt: "\<And>l. unat (word_of_nat (pat l) :: 32 word) = pat l"
    using small by (rule unat_i32_small)
  have rd: "ockl_readuplane_i32 src (\<lambda>l. Bits (pat l)) (at_lane offset) =
            (\<lambda>l. Bits (pat (src l (k l))))"
    by (simp add: fun_eq_iff ockl_readuplane_i32_def off as_i32_Bits rt)
  show ?thesis
    by (simp add: EmitFullWarpShuffleDown_fast_def EmitDeviceFunctionCall_def
        device_library_def CreateBitCast_def getIntNTy_def ty pat to_pattern_Bits
        of_pattern_scalar rd)
qed

lemma general_path_calls:
  "emitted_calls (snd (EmitFullWarpShuffleDown_general lib v offset st)) =
     emitted_calls st @
     replicate (CeilOfRatio (getPrimitiveSizeInBits (getType v)) 32) ''__ockl_readuplane_i32''"
  by (simp add: EmitFullWarpShuffleDown_general_def Let_def split_beta shuffle_segments_calls)

lemma as_i32_offset:
  assumes "holds_bit_pattern offset"
  shows "\<exists>k. \<forall>l. as_i32 (at_lane offset l) = Some (k l)"
proof -
  from holds_bit_patternD [OF assms] obtain n where "\<forall>l. at_lane offset l = Bits (n l)"
    by blast
  then have "\<forall>l. as_i32 (at_lane offset l) = Some (word_of_nat (n l))"
    by (simp add: as_i32_Bits)
  then show ?thesis by (rule exI [where x = "\<lambda>l. word_of_nat (n l)"])
qed

lemma general_path_state_1:
  assumes "getPrimitiveSizeInBits (getType v) = 32"
  shows "snd (EmitFullWarpShuffleDown_general lib v offset st) =
           emit_call ''__ockl_readuplane_i32'' st"
  by (simp add: EmitFullWarpShuffleDown_general_def Let_def split_beta shuffle_segments_state
      assms CeilOfRatio_def)

lemma holds_bit_pattern_uniform:
  "is_scalar_type ty \<Longrightarrow> n < 2 ^ getPrimitiveSizeInBits ty \<Longrightarrow>
   holds_bit_pattern (uniform_value ty n)"
  by (simp add: holds_bit_pattern_def uniform_value_def)

lemma holds_bit_pattern_getInt32: "holds_bit_pattern (getInt32 c)"
proof -
  have "unat c < 2 ^ 32"
    using unsigned_less [of c] by simp
  then show ?thesis
    by (simp add: holds_bit_pattern_def getInt32_def)
qed

lemma holds_bit_pattern_thread_index:
  "is_scalar_type ty \<Longrightarrow> 32 \<le> getPrimitiveSizeInBits ty \<Longrightarrow>
   holds_bit_pattern (thread_index_value ty)"
proof -
  assume s: "is_scalar_type ty" and w: "32 \<le> getPrimitiveSizeInBits ty"
  have "unat (t :: 32 word) < 2 ^ getPrimitiveSizeInBits ty" for t
  proof -
    have "unat t < 2 ^ 32" using unsigned_less [of t] by simp
    also have "(2::nat) ^ 32 \<le> 2 ^ getPrimitiveSizeInBits ty"
      using w by (rule power_increasing) simp
    finally show ?thesis .
  qed
  with s show ?thesis
    by (simp add: holds_bit_pattern_def thread_index_value_def)
qed

lemma IsBlock0Thread0_at_lane:
  "at_lane IsBlock0Thread0 (thread_id_x, block_id_x) =
     Bits (if thread_id_x = 0 \<and> block_id_x = 0 then 1 else 0)"
  by (simp add: IsBlock0Thread0_def CreateAnd_def CreateICmpEQ_def getInt32_def unat_eq_0)

subsection \<open>The shuffle exchanges whole bit patterns\<close>

text \<open>
  C1. For every scalar value (an integer type of any width, or a floating-point
  type) that holds a bit pattern of its width on every lane, and every 32-bit
  offset, the general path of \<^verbatim>\<open>EmitFullWarpShuffleDown\<close> (cast to an integer,
  zero-extend to a multiple of 32 bits, exchange each 32-bit segment, reassemble,
  truncate, cast back) yields exactly the value obtained by giving each lane the
  whole pattern of the lane selected for it, whatever the lane selection; so
  does the function as a whole; and when every lane selects itself the result is
  the original value.
\<close>

theorem EmitFullWarpShuffleDown_bit_identical:
  assumes "holds_bit_pattern v" and "holds_bit_pattern offset"
    and "getType offset = IntegerTy 32"
  shows "fst (EmitFullWarpShuffleDown_general (device_library src) v offset st) =
           whole_pattern_exchange src v offset \<and>
         fst (EmitFullWarpShuffleDown (device_library src) v offset st) =
           whole_pattern_exchange src v offset \<and>
         fst (EmitFullWarpShuffleDown_general (device_library (\<lambda>l k. l)) v offset st) = v"
proof -
  from holds_bit_patternD [OF assms(1)]
  obtain pat where pat: "\<And>l. at_lane v l = Bits (pat l)"
    and small: "\<And>l. pat l < 2 ^ getPrimitiveSizeInBits (getType v)"
    by blast
  from as_i32_offset [OF assms(2)]
  obtain k where off: "\<And>l. as_i32 (at_lane offset l) = Some (k l)"
    by blast
  have scalar: "is_scalar_type (getType v)"
    using assms(1) by (simp add: holds_bit_pattern_def)
  have spec: "\<And>s. whole_pattern_exchange s v offset =
                \<lparr>getType = getType v, at_lane = \<lambda>l. Bits (pat (s l (k l)))\<rparr>"
    using pat off by (rule whole_pattern_exchange_Bits)
  have general: "\<And>s. fst (EmitFullWarpShuffleDown_general (device_library s) v offset st) =
                   whole_pattern_exchange s v offset"
    unfolding spec using scalar pat small off by (rule general_path_value)
  have fast: "getType v = FloatTy \<Longrightarrow>
              fst (EmitFullWarpShuffleDown_fast (device_library src) v offset st) =
                whole_pattern_exchange src v offset"
  proof -
    assume ty: "getType v = FloatTy"
    then have "\<And>l. pat l < 2 ^ 32" using small by simp
    with ty pat show ?thesis
      unfolding spec using off by (rule fast_path_value)
  qed
  have whole: "fst (EmitFullWarpShuffleDown (device_library src) v offset st) =
                 whole_pattern_exchange src v offset"
    using general fast by (simp add: EmitFullWarpShuffleDown_def isFloatTy_def)
  have "whole_pattern_exchange (\<lambda>l k. l) v offset = v"
    unfolding spec by (simp add: pat [symmetric])
  with general whole show ?thesis by simp
qed

theorem EmitFullWarpShuffleDown_bit_identical_witness:
  "(fst (EmitFullWarpShuffleDown_general (device_library lane_ahead)
           (thread_index_value (IntegerTy 64)) (getInt32 1) empty_module) =
      whole_pattern_exchange lane_ahead (thread_index_value (IntegerTy 64)) (getInt32 1) \<and>
    fst (EmitFullWarpShuffleDown (device_library lane_ahead)
           (thread_index_value (IntegerTy 64)) (getInt32 1) empty_module) =
      whole_pattern_exchange lane_ahead (thread_index_value (IntegerTy 64)) (getInt32 1) \<and>
    fst (EmitFullWarpShuffleDown_general (device_library (\<lambda>l k. l))
           (thread_index_value (IntegerTy 64)) (getInt32 1) empty_module) =
      thread_index_value (IntegerTy 64)) \<and>
   fst (EmitFullWarpShuffleDown_general (device_library (\<lambda>l k. l))
          (uniform_value DoubleTy 4614256656552045848) (getInt32 0) empty_module) =
     uniform_value DoubleTy 4614256656552045848 \<and>
   fst (EmitFullWarpShuffleDown_general (device_library (\<lambda>l k. l))
          (uniform_value (IntegerTy 64) 4614256656552045848) (getInt32 0) empty_module) =
     uniform_value (IntegerTy 64) 4614256656552045848 \<and>
   at_lane (fst (EmitFullWarpShuffleDown (device_library lane_ahead)
                   (thread_index_value (IntegerTy 64)) (getInt32 1) empty_module)) (3, 0) =
     Bits 4"
proof -
  have at: "at_lane (whole_pattern_exchange lane_ahead (thread_index_value (IntegerTy 64))
                       (getInt32 1)) (3, 0) = Bits 4"
    by (simp add: whole_pattern_exchange_def thread_index_value_def getInt32_def as_i32_def
        lane_ahead_def)
  have t: "holds_bit_pattern (thread_index_value (IntegerTy 64))"
    by (rule holds_bit_pattern_thread_index) simp_all
  have d: "holds_bit_pattern (uniform_value DoubleTy 4614256656552045848)"
    by (rule holds_bit_pattern_uniform) simp_all
  have i: "holds_bit_pattern (uniform_value (IntegerTy 64) 4614256656552045848)"
    by (rule holds_bit_pattern_uniform) simp_all
  have ty: "\<And>c. getType (getInt32 c) = IntegerTy 32"
    by (simp add: getInt32_def)
  show ?thesis
    using EmitFullWarpShuffleDown_bit_identical
            [OF t holds_bit_pattern_getInt32 ty, of lane_ahead 1 empty_module]
          EmitFullWarpShuffleDown_bit_identical
            [OF d holds_bit_pattern_getInt32 ty, of lane_ahead 0 empty_module]
          EmitFullWarpShuffleDown_bit_identical
            [OF i holds_bit_pattern_getInt32 ty, of lane_ahead 0 empty_module]
          at
    by (simp only: simp_thms)
qed

text \<open>
  C8. For every value of type \<^verbatim>\<open>float\<close> holding a 32-bit pattern on every lane and
  every 32-bit offset, the fast path returns what the general path returns, value
  and module alike; the function takes the fast path; and the fast path emits
  exactly one call, to \<^verbatim>\<open>__ockl_readuplane_i32\<close>.
\<close>

theorem fast_path_is_general_path:
  assumes "getType v = FloatTy" and "holds_bit_pattern v" and "holds_bit_pattern offset"
    and "getType offset = IntegerTy 32"
  shows "EmitFullWarpShuffleDown_fast (device_library src) v offset st =
           EmitFullWarpShuffleDown_general (device_library src) v offset st \<and>
         EmitFullWarpShuffleDown (device_library src) v offset st =
           EmitFullWarpShuffleDown_fast (device_library src) v offset st \<and>
         emitted_calls (snd (EmitFullWarpShuffleDown_fast (device_library src) v offset st)) =
           emitted_calls st @ [''__ockl_readuplane_i32'']"
proof -
  from holds_bit_patternD [OF assms(2)]
  obtain pat where pat: "\<And>l. at_lane v l = Bits (pat l)"
    and small: "\<And>l. pat l < 2 ^ getPrimitiveSizeInBits (getType v)"
    by blast
  from as_i32_offset [OF assms(3)]
  obtain k where off: "\<And>l. as_i32 (at_lane offset l) = Some (k l)"
    by blast
  have small32: "\<And>l. pat l < 2 ^ 32"
    using small assms(1) by simp
  have scalar: "is_scalar_type (getType v)"
    using assms(1) by simp
  have f: "fst (EmitFullWarpShuffleDown_fast (device_library src) v offset st) =
           \<lparr>getType = getType v, at_lane = \<lambda>l. Bits (pat (src l (k l)))\<rparr>"
    using assms(1) pat small32 off by (rule fast_path_value)
  have g: "fst (EmitFullWarpShuffleDown_general (device_library src) v offset st) =
           \<lparr>getType = getType v, at_lane = \<lambda>l. Bits (pat (src l (k l)))\<rparr>"
    using scalar pat small off by (rule general_path_value)
  have fs: "snd (EmitFullWarpShuffleDown_fast (device_library src) v offset st) =
            emit_call ''__ockl_readuplane_i32'' st"
    by (simp add: EmitFullWarpShuffleDown_fast_def EmitDeviceFunctionCall_def Let_def)
  have gs: "snd (EmitFullWarpShuffleDown_general (device_library src) v offset st) =
            emit_call ''__ockl_readuplane_i32'' st"
    by (rule general_path_state_1) (simp add: assms(1))
  have eq: "EmitFullWarpShuffleDown_fast (device_library src) v offset st =
            EmitFullWarpShuffleDown_general (device_library src) v offset st"
    by (rule prod_eqI) (simp_all only: f g fs gs)
  have whole: "EmitFullWarpShuffleDown (device_library src) v offset st =
               EmitFullWarpShuffleDown_fast (device_library src) v offset st"
    by (simp add: EmitFullWarpShuffleDown_def isFloatTy_def assms(1))
  have one: "emitted_calls (snd (EmitFullWarpShuffleDown_fast (device_library src) v offset st)) =
             emitted_calls st @ [''__ockl_readuplane_i32'']"
    by (simp add: fs emit_call_def)
  from eq whole one show ?thesis by simp
qed

theorem fast_path_is_general_path_witness:
  "EmitFullWarpShuffleDown_fast (device_library lane_ahead)
     (uniform_value FloatTy 1069547520) (getInt32 1) empty_module =
   EmitFullWarpShuffleDown_general (device_library lane_ahead)
     (uniform_value FloatTy 1069547520) (getInt32 1) empty_module \<and>
   EmitFullWarpShuffleDown (device_library lane_ahead)
     (uniform_value FloatTy 1069547520) (getInt32 1) empty_module =
   EmitFullWarpShuffleDown_fast (device_library lane_ahead)
     (uniform_value FloatTy 1069547520) (getInt32 1) empty_module \<and>
   emitted_calls (snd (EmitFullWarpShuffleDown_fast (device_library lane_ahead)
     (uniform_value FloatTy 1069547520) (getInt32 1) empty_module)) =
   emitted_calls empty_module @ [''__ockl_readuplane_i32'']"
proof -
  have f: "holds_bit_pattern (uniform_value FloatTy 1069547520)"
    by (rule holds_bit_pattern_uniform) simp_all
  have fty: "getType (uniform_value FloatTy 1069547520) = FloatTy"
    by (simp add: uniform_value_def)
  have ty: "getType (getInt32 1) = IntegerTy 32"
    by (simp add: getInt32_def)
  show ?thesis
    by (rule fast_path_is_general_path [OF fty f holds_bit_pattern_getInt32 ty])
qed

subsection \<open>Block 0, thread 0\<close>

text \<open>
  C9. On the lane with thread index \<open>t\<close> and block index \<open>b\<close> the value built by
  \<^verbatim>\<open>IsBlock0Thread0\<close> is true (the bit 1) exactly when \<open>t = 0\<close> and \<open>b = 0\<close>; in a
  launch of at least two threads per block and at least two blocks, the lanes of
  the grid on which it is true are exactly the one lane \<open>(0, 0)\<close>.
\<close>

theorem IsBlock0Thread0_single_lane:
  "at_lane IsBlock0Thread0 (thread_id_x, block_id_x) =
     Bits (if thread_id_x = 0 \<and> block_id_x = 0 then 1 else 0) \<and>
   (2 \<le> threads_per_block \<and> 2 \<le> blocks \<longrightarrow>
      {l. in_launch_grid threads_per_block blocks l \<and> at_lane IsBlock0Thread0 l = Bits 1} =
        {(0, 0)})"
proof -
  have "{l. in_launch_grid threads_per_block blocks l \<and> at_lane IsBlock0Thread0 l = Bits 1} =
        {(0, 0)}"
    if "2 \<le> threads_per_block" and "2 \<le> blocks"
  proof -
    have "0 < threads_per_block" and "0 < blocks"
      using that by (auto simp: word_less_nat_alt word_le_nat_alt)
    then show ?thesis
      by (auto simp: in_launch_grid_def IsBlock0Thread0_at_lane split: if_splits)
  qed
  then show ?thesis
    using IsBlock0Thread0_at_lane by blast
qed

theorem IsBlock0Thread0_single_lane_witness:
  "at_lane IsBlock0Thread0 (0, 0) = Bits 1 \<and>
   at_lane IsBlock0Thread0 (1, 0) = Bits 0 \<and>
   at_lane IsBlock0Thread0 (0, 1) = Bits 0 \<and>
   at_lane IsBlock0Thread0 (1, 1) = Bits 0 \<and>
   {l. in_launch_grid 2 2 l \<and> at_lane IsBlock0Thread0 l = Bits 1} = {(0, 0)}"
  using IsBlock0Thread0_single_lane [of 0 0 2 2]
        IsBlock0Thread0_single_lane [of 1 0 2 2]
        IsBlock0Thread0_single_lane [of 0 1 2 2]
        IsBlock0Thread0_single_lane [of 1 1 2 2]
  by simp

end
